theory Spec2Isabelle
  imports Complex_Main "HOL-Library.List_Lexorder"
begin

text \<open>
  A model of the dashboard script \<open>asset_integrity_genai_app.py\<close>: the generator of
  the simulated asset register, the advisory client, the cost catalogue, the prompts
  and the panels \<open>tabs[1]\<close> to \<open>tabs[8]\<close>, run in the order of the script.
\<close>

section \<open>Python values\<close>

text \<open>
  A Python \<open>str\<close> is a sequence of Unicode code points, so it is modelled as a list of
  naturals (the code points); \<open>ascii\<close> turns an ASCII literal of the source into one.
  Python integers are \<open>int\<close>. A Python \<open>float\<close> is modelled by the exact real number it
  stands for: binary rounding error is not part of the model.
\<close>

type_synonym str = "nat list"

definition ascii :: "string \<Rightarrow> str" where
  "ascii cs = map of_char cs"

text \<open>\<open>str(n)\<close> for a non-negative integer: its decimal digits.\<close>

fun digits10 :: "nat \<Rightarrow> str" where
  "digits10 n = (if n < 10 then [48 + n] else digits10 (n div 10) @ [48 + n mod 10])"

declare digits10.simps [simp del]

text \<open>\<open>str(i)\<close> and the f-string conversion \<open>{i}\<close> of an integer.\<close>

definition str_int :: "int \<Rightarrow> str" where
  "str_int i = (if i < 0 then 45 # digits10 (nat (- i)) else digits10 (nat i))"

text \<open>
  The format specification \<open>04d\<close>: the decimal digits, padded with zeros on the left to
  a width of at least 4 (the sign, if any, counts in the width and comes first).
\<close>

definition zfill :: "nat \<Rightarrow> str \<Rightarrow> str" where
  "zfill w ds = replicate (w - length ds) 48 @ ds"

definition format_04d :: "int \<Rightarrow> str" where
  "format_04d i = (if i < 0 then 45 # zfill 3 (digits10 (nat (- i))) else zfill 4 (digits10 (nat i)))"

text \<open>
  \<open>round(x, n)\<close> on a float: the nearest decimal with \<open>n\<close> places, a tie going to the
  even neighbour. The model rounds the exact real number; the binary float of the
  program can lie on the other side of a tie (the real 1.325 rounds to 1.32 here, the
  float next to it to 1.33), so a value of the model may differ from the program's in
  its last decimal.
\<close>

definition py_round :: "real \<Rightarrow> nat \<Rightarrow> real" where
  "py_round x n =
     (let y = x * 10 ^ n; f = \<lfloor>y\<rfloor>; d = y - of_int f
      in of_int (if d < 1 / 2 then f else if 1 / 2 < d then f + 1
                 else if even f then f else f + 1) / 10 ^ n)"

section \<open>The random source\<close>

text \<open>
  Python's \<open>random\<close> module is not part of the repository. Its generator is modelled as
  an endless sequence of raw draws that each library call consumes from the front:
  \<open>randint a b\<close> returns an integer of \<open>[a, b]\<close> (every one of them for some draw),
  \<open>choice\<close> an element of a non-empty sequence, and \<open>uniform a b\<close> is
  \<open>a + (b - a) * random()\<close> with \<open>random()\<close> a multiple of \<open>2\<^sup>-\<^sup>5\<^sup>3\<close> in \<open>[0, 1)\<close>.
  Every call site of the program passes \<open>a \<le> b\<close> and a non-empty literal list.
\<close>

type_synonym rng = "nat \<Rightarrow> nat"

definition next_draw :: "rng \<Rightarrow> nat \<times> rng" where
  "next_draw g = (g 0, \<lambda>n. g (Suc n))"

definition randint :: "int \<Rightarrow> int \<Rightarrow> rng \<Rightarrow> int \<times> rng" where
  "randint a b g = (let (r, g') = next_draw g in (a + int (r mod nat (b - a + 1)), g'))"

definition choice :: "'a list \<Rightarrow> rng \<Rightarrow> 'a \<times> rng" where
  "choice xs g = (let (r, g') = next_draw g in (xs ! (r mod length xs), g'))"

definition uniform :: "real \<Rightarrow> real \<Rightarrow> rng \<Rightarrow> real \<times> rng" where
  "uniform a b g =
     (let (r, g') = next_draw g in (a + (b - a) * (real (r mod 2 ^ 53) / 2 ^ 53), g'))"

section \<open>The simulated asset register\<close>

text \<open>
  One row of the table built by \<open>generate_assets\<close>. The fields are the keys of the
  dictionary in the source, in its order: \<open>"Asset ID"\<close>, \<open>"Type"\<close>, \<open>"Location"\<close>,
  \<open>"Age (years)"\<close>, \<open>"Last Maintenance"\<close> (a date, as a day number),
  \<open>"Degradation %"\<close>, \<open>"Status"\<close>, \<open>"Vibration"\<close>, \<open>"Temperature"\<close>,
  \<open>"Corrosion Level"\<close> and \<open>"RUL (months)"\<close>.
\<close>

record asset =
  Asset_ID :: str
  Type :: str
  Location :: str
  Age_years :: int
  Last_Maintenance :: int
  Degradation_pct :: real
  Status :: str
  Vibration :: real
  Temperature :: real
  Corrosion_Level :: real
  RUL_months :: int

text \<open>The dictionary \<open>equipment_types\<close>; a Python dictionary iterates in insertion order.\<close>

definition equipment_types :: "(str \<times> nat) list" where
  "equipment_types =
     [(ascii ''Pump'', 30), (ascii ''Compressor'', 10), (ascii ''Turbine'', 5),
      (ascii ''Heat Exchanger'', 10), (ascii ''Tank'', 10), (ascii ''Vessel'', 5),
      (ascii ''Pipeline'', 15), (ascii ''Motor'', 10), (ascii ''Control Panel'', 5),
      (ascii ''Sensor'', 40)]"

text \<open>
  The dictionary literal appended for one asset. Its values are evaluated in the order
  they are written, which fixes the order of the draws. \<open>today\<close> is the day number of
  \<open>datetime.today()\<close>.
\<close>

definition new_asset :: "int \<Rightarrow> int \<Rightarrow> str \<Rightarrow> rng \<Rightarrow> asset \<times> rng" where
  "new_asset today id_counter eq_type g0 =
     (let (zone, g1) = choice [ascii ''A'', ascii ''B'', ascii ''C'', ascii ''D''] g0;
          (age, g2) = randint 1 20 g1;
          (days, g3) = randint 30 900 g2;
          (deg, g4) = uniform 10 90 g3;
          (status, g5) = choice [ascii ''Operational'', ascii ''Under Maintenance'',
                                 ascii ''Standby''] g4;
          (vib, g6) = uniform (1 / 10) 5 g5;
          (temp, g7) = uniform 30 120 g6;
          (cor, g8) = uniform 0 1 g7;
          (rul, g9) = randint 1 36 g8
      in (\<lparr>Asset_ID = ascii ''A'' @ format_04d id_counter,
           Type = eq_type,
           Location = ascii ''Zone '' @ zone,
           Age_years = age,
           Last_Maintenance = today - days,
           Degradation_pct = py_round deg 2,
           Status = status,
           Vibration = py_round vib 2,
           Temperature = py_round temp 1,
           Corrosion_Level = py_round cor 2,
           RUL_months = rul\<rparr>, g9))"

text \<open>
  The inner loop \<open>for _ in range(count)\<close>; the loop state is the list \<open>assets\<close>, the
  counter \<open>id_counter\<close> and the random source.
\<close>

fun for_range :: "int \<Rightarrow> str \<Rightarrow> nat \<Rightarrow> asset list \<times> int \<times> rng \<Rightarrow> asset list \<times> int \<times> rng" where
  "for_range today eq_type 0 s = s"
| "for_range today eq_type (Suc n) (assets, id_counter, g) =
     (let (a, g') = new_asset today id_counter eq_type g
      in for_range today eq_type n (assets @ [a], id_counter + 1, g'))"

text \<open>The outer loop \<open>for eq_type, count in equipment_types.items()\<close>.\<close>

fun for_items :: "int \<Rightarrow> (str \<times> nat) list \<Rightarrow> asset list \<times> int \<times> rng \<Rightarrow> asset list \<times> int \<times> rng" where
  "for_items today [] s = s"
| "for_items today ((eq_type, count) # items) s =
     for_items today items (for_range today eq_type count s)"

text \<open>
  \<open>generate_assets\<close> returns the table and, since later code draws again, the random
  source it leaves behind.
\<close>

definition generate_assets :: "int \<Rightarrow> rng \<Rightarrow> asset list \<times> rng" where
  "generate_assets today g =
     (let (assets, id_counter, g') = for_items today equipment_types ([], 1, g)
      in (assets, g'))"

section \<open>Risk colouring\<close>

text \<open>
  \<open>len(row)\<close>: a row of the table, and of every table filtered from it, has the eleven
  columns of the record.
\<close>

definition len_row :: "asset \<Rightarrow> nat" where
  "len_row row = 11"

text \<open>\<open>color_row\<close>, applied to every row of the full register.\<close>

definition color_row :: "asset \<Rightarrow> str list" where
  "color_row row =
     (if RUL_months row \<le> 3 then replicate (len_row row) (ascii ''background-color: red'')
      else if RUL_months row \<le> 6 then replicate (len_row row) (ascii ''background-color: yellow'')
      else replicate (len_row row) (ascii ''background-color: lightgreen''))"

text \<open>\<open>highlight_lifespan\<close>, applied to every row of the table filtered by \<open>RUL \<le> 6\<close>.\<close>

definition highlight_lifespan :: "asset \<Rightarrow> str list" where
  "highlight_lifespan row =
     (if RUL_months row \<le> 3 then replicate (len_row row) (ascii ''background-color: red'')
      else if RUL_months row \<le> 6 then replicate (len_row row) (ascii ''background-color: yellow'')
      else replicate (len_row row) [])"

section \<open>The advisory client\<close>

text \<open>
  The exceptions of the program. \<open>APIError m\<close> stands for any \<open>Exception\<close> raised by the
  chat-completion call, with \<open>m\<close> its \<open>str(e)\<close>. \<open>str_error\<close> is \<open>str(e)\<close>. An interrupt
  of the process (\<open>KeyboardInterrupt\<close>, \<open>SystemExit\<close>) is not an \<open>Exception\<close> and is not
  modelled.
\<close>

datatype error = NameError | ValueError | IndexError | AttributeError | APIError str

fun str_error :: "error \<Rightarrow> str" where
  "str_error NameError = ascii ''name '' @ [39] @ ascii ''prompt'' @ [39] @ ascii '' is not defined''"
| "str_error ValueError = ascii ''a must be greater than 0 unless no samples are taken''"
| "str_error IndexError = ascii ''list index out of range''"
| "str_error AttributeError =
     [39] @ ascii ''NoneType'' @ [39] @ ascii '' object has no attribute '' @ [39] @ ascii ''strip'' @ [39]"
| "str_error (APIError m) = m"

text \<open>
  The response of the chat-completion call, reduced to what the program reads of it:
  the list \<open>choices\<close>, each choice by its \<open>message.content\<close>, which may be \<open>None\<close>.
\<close>

datatype response = Response (choices: "str option list")

text \<open>
  The call \<open>client.chat.completions.create(model=..., messages=...)\<close>: an opaque function
  of the model identifier and the list of messages (role and content), which returns a
  response or raises.
\<close>

type_synonym chat_create = "str option \<Rightarrow> (str \<times> str) list \<Rightarrow> error + response"

text \<open>\<open>str.isspace\<close> on one code point, and \<open>str.strip()\<close>.\<close>

definition isspace :: "nat \<Rightarrow> bool" where
  "isspace c \<longleftrightarrow>
     (9 \<le> c \<and> c \<le> 13) \<or> (28 \<le> c \<and> c \<le> 32) \<or> c = 133 \<or> c = 160 \<or> c = 5760 \<or>
     (8192 \<le> c \<and> c \<le> 8202) \<or> c = 8232 \<or> c = 8233 \<or> c = 8239 \<or> c = 8287 \<or> c = 12288"

definition strip :: "str \<Rightarrow> str" where
  "strip s = rev (dropWhile isspace (rev (dropWhile isspace s)))"

text \<open>The warning sign followed by the variation selector, as in the source's literal.\<close>

definition warning_sign :: str where
  "warning_sign = [9888, 65039]"

text \<open>The body of the \<open>try\<close> block of \<open>genai_advisory\<close>.\<close>

definition advisory_try :: "chat_create \<Rightarrow> str option \<Rightarrow> str \<Rightarrow> error + str" where
  "advisory_try create DEPLOYMENT_NAME prompt =
     (case create DEPLOYMENT_NAME
             [(ascii ''system'', ascii ''You are an asset integrity advisor.''),
              (ascii ''user'', prompt)] of
        Inl e \<Rightarrow> Inl e
      | Inr response \<Rightarrow>
          (case choices response of
             [] \<Rightarrow> Inl IndexError
           | c # _ \<Rightarrow> (case c of None \<Rightarrow> Inl AttributeError | Some text \<Rightarrow> Inr (strip text))))"

text \<open>\<open>genai_advisory\<close>: the \<open>try\<close> block with its handler \<open>except Exception as e\<close>.\<close>

definition genai_advisory :: "chat_create \<Rightarrow> str option \<Rightarrow> str \<Rightarrow> error + str" where
  "genai_advisory create DEPLOYMENT_NAME prompt =
     (case advisory_try create DEPLOYMENT_NAME prompt of
        Inr text \<Rightarrow> Inr text
      | Inl e \<Rightarrow> Inr (warning_sign @ ascii '' GenAI Error: '' @ str_error e))"

section \<open>The cost catalogue\<close>

text \<open>
  \<open>get_equipment_cost\<close> builds the whole dictionary on every call, so it draws ten
  times, in the order of the keys, before it looks the type up.
\<close>

definition get_equipment_cost :: "str \<Rightarrow> rng \<Rightarrow> int \<times> rng" where
  "get_equipment_cost eq_type g0 =
     (let (pump, g1) = randint 5000 15000 g0;
          (compressor, g2) = randint 20000 60000 g1;
          (turbine, g3) = randint 40000 120000 g2;
          (tank, g4) = randint 15000 40000 g3;
          (sensor, g5) = randint 500 3000 g4;
          (pipeline, g6) = randint 10000 30000 g5;
          (motor, g7) = randint 8000 20000 g6;
          (panel, g8) = randint 5000 15000 g7;
          (exchanger, g9) = randint 10000 25000 g8;
          (vessel, g10) = randint 12000 35000 g9;
          catalog = [(ascii ''Pump'', pump), (ascii ''Compressor'', compressor),
                     (ascii ''Turbine'', turbine), (ascii ''Tank'', tank),
                     (ascii ''Sensor'', sensor), (ascii ''Pipeline'', pipeline),
                     (ascii ''Motor'', motor), (ascii ''Control Panel'', panel),
                     (ascii ''Heat Exchanger'', exchanger), (ascii ''Vessel'', vessel)]
      in (case map_of catalog eq_type of Some cost \<Rightarrow> cost | None \<Rightarrow> 10000, g10))"

section \<open>Rendering values into prompts\<close>

text \<open>
  \<open>str(x)\<close> of a float that holds a decimal with at most two places, as every float of
  the table does after \<open>round\<close>: the shortest digits, with at least one after the point.
\<close>

definition str_float :: "real \<Rightarrow> str" where
  "str_float x =
     (let k = nat \<lfloor>\<bar>x\<bar> * 100\<rfloor>; whole = k div 100; frac = k mod 100
      in (if x < 0 then [45] else []) @ digits10 whole @ [46] @
         (if frac mod 10 = 0 then [48 + frac div 10] else [48 + frac div 10, 48 + frac mod 10]))"

text \<open>The f-string of the lifespan panel (lines 125 to 133); code point 10 is the newline.\<close>

definition lifespan_prompt :: "asset \<Rightarrow> str" where
  "lifespan_prompt sample =
     ascii ''Asset ID: '' @ Asset_ID sample @ [10] @
     ascii ''Type: '' @ Type sample @ [10] @
     ascii ''Age: '' @ str_int (Age_years sample) @ ascii '' years'' @ [10] @
     ascii ''Degradation: '' @ str_float (Degradation_pct sample) @ ascii ''%'' @ [10] @
     ascii ''Vibration: '' @ str_float (Vibration sample) @ [10] @
     ascii ''Temperature: '' @ str_float (Temperature sample) @ ascii '' deg C'' @ [10] @
     ascii ''Corrosion Level: '' @ str_float (Corrosion_Level sample) @ [10] @
     ascii ''RUL: '' @ str_int (RUL_months sample) @ ascii '' months'' @ [10] @
     ascii ''Explain why this asset'' @ [39] @ ascii ''s RUL is low and suggest next steps.''"

text \<open>The f-string of the field-report panel (line 166).\<close>

definition report_prompt :: "str \<Rightarrow> str" where
  "report_prompt note = ascii ''Summarize this field report into risk advisory:'' @ [10] @ note"

text \<open>The f-string of the regulatory panel (line 172).\<close>

definition compliance_prompt :: "asset \<Rightarrow> str" where
  "compliance_prompt sample =
     ascii ''The asset '' @ Asset_ID sample @ ascii '' is '' @ str_int (Age_years sample) @
     ascii '' years old with degradation '' @ str_float (Degradation_pct sample) @
     ascii ''%, in location '' @ Location sample @
     ascii ''. Predict possible upcoming compliance risks.''"

text \<open>The f-string of the cost panel (line 198).\<close>

definition cost_prompt :: "int \<Rightarrow> str" where
  "cost_prompt total_cost =
     ascii ''In the next 6 months, assets totaling $'' @ str_int total_cost @
     ascii '' are due for replacement. Provide a capital planning summary.''"

text \<open>The f-string of the work-order panel (lines 213 to 222).\<close>

definition work_order_prompt :: "asset \<Rightarrow> str" where
  "work_order_prompt sample =
     ascii ''Create a prioritized maintenance work order for:'' @ [10] @
     ascii ''Asset: '' @ Asset_ID sample @ [10] @
     ascii ''Type: '' @ Type sample @ [10] @
     ascii ''Location: '' @ Location sample @ [10] @
     ascii ''Status: '' @ Status sample @ [10] @
     ascii ''RUL: '' @ str_int (RUL_months sample) @ ascii '' months'' @ [10] @
     ascii ''Vibration: '' @ str_float (Vibration sample) @ [10] @
     ascii ''Temperature: '' @ str_float (Temperature sample) @ ascii '' deg C'' @ [10] @
     ascii ''Corrosion: '' @ str_float (Corrosion_Level sample) @ [10] @
     ascii ''Suggest optimal technician type and urgency.''"

section \<open>The dashboard script\<close>

text \<open>
  The rows of \<open>low_rul\<close> in the cost panel: an asset with the two columns the panel
  adds, \<open>"Replacement Cost ($)"\<close> and \<open>"Replace By"\<close> (a day number).
\<close>

record cost_row = asset +
  Replacement_Cost :: int
  Replace_By :: int

text \<open>
  What a panel puts on the page. The headings, legends and captions that a panel shows
  on every run, whatever the table and the advisories are, are left out. A styled
  table is the list of its rows, each with the styles of its cells; a plain table is
  the list of its rows, each a list of cells; the bar chart is its list of bars.
\<close>

datatype cell = Text str | Number int | Day int

datatype widget =
    Markdown str
  | Info str
  | Warning str
  | Error str
  | Success str
  | Styled_Dataframe "(asset \<times> str list) list"
  | Dataframe "cell list list"
  | Pyplot "(str \<times> real) list"

text \<open>
  The client object: the chat-completion call and the configured deployment name
  (\<open>os.getenv\<close> gives \<open>None\<close> when the variable is unset). The call is indexed by the
  number of calls made before it, so that two calls with the same prompt may answer
  differently.
\<close>

record client =
  chat_create :: "nat \<Rightarrow> chat_create"
  DEPLOYMENT_NAME :: "str option"

text \<open>
  The state of one run of the script: the module-level table \<open>assets_df\<close>, the
  module-level variable \<open>prompt\<close> (\<open>None\<close> while it is unbound), the table \<open>low_rul\<close>
  of the cost panel (\<open>None\<close> while it is unbound), the random source, the prompts
  passed to \<open>genai_advisory\<close> so far and the widgets put on the page so far.
  The other module-level variables are read only in the panel that binds them, after
  it has bound them, and are local values of the panel functions below.
  Filtering with a boolean mask (\<open>assets_df[...]\<close>), \<open>sort_values\<close> and \<open>head\<close> return new
  tables, so tables are values.
\<close>

record state =
  assets_df :: "asset list"
  prompt_var :: "str option"
  low_rul_var :: "cost_row list option"
  random_state :: rng
  sent :: "str list"
  shown :: "widget list"

definition display :: "widget \<Rightarrow> state \<Rightarrow> state" where
  "display w st = st\<lparr>shown := shown st @ [w]\<rparr>"

text \<open>Reading the variable \<open>prompt\<close>: a \<open>NameError\<close> while it is unbound.\<close>

definition read_prompt :: "state \<Rightarrow> error + str" where
  "read_prompt st = (case prompt_var st of None \<Rightarrow> Inl NameError | Some p \<Rightarrow> Inr p)"

text \<open>A call of \<open>genai_advisory\<close> from the script; the prompt passed is logged.\<close>

definition call_advisory :: "client \<Rightarrow> str \<Rightarrow> state \<Rightarrow> error + str \<times> state" where
  "call_advisory cl p st =
     (case genai_advisory (chat_create cl (length (sent st))) (DEPLOYMENT_NAME cl) p of
        Inl e \<Rightarrow> Inl e
      | Inr advisory \<Rightarrow> Inr (advisory, st\<lparr>sent := sent st @ [p]\<rparr>))"

text \<open>
  \<open>df.sample(1).iloc[0]\<close>: one row, drawn at random; it raises on an empty table. The
  model has one random source, so the draw is taken from the same sequence as the
  draws of \<open>random\<close>.
\<close>

definition sample_1 :: "'a list \<Rightarrow> rng \<Rightarrow> error + 'a \<times> rng" where
  "sample_1 rows g =
     (if rows = [] then Inl ValueError
      else let (r, g') = next_draw g in Inr (rows ! (r mod length rows), g'))"

text \<open>\<open>tabs[1]\<close>: the full register, coloured by \<open>color_row\<close>.\<close>

definition tabs1 :: "state \<Rightarrow> error + state" where
  "tabs1 st = Inr (display (Styled_Dataframe (map (\<lambda>row. (row, color_row row)) (assets_df st))) st)"

text \<open>\<open>tabs[2]\<close>: the lifespan panel. It binds \<open>prompt\<close> only when \<open>low_rul_df\<close> is not empty.\<close>

definition tabs2 :: "client \<Rightarrow> state \<Rightarrow> error + state" where
  "tabs2 cl st =
     (let low_rul_df = filter (\<lambda>row. RUL_months row \<le> 6) (assets_df st);
          st1 = display (Styled_Dataframe (map (\<lambda>row. (row, highlight_lifespan row)) low_rul_df)) st
      in if low_rul_df \<noteq> [] then
           (case sample_1 low_rul_df (random_state st1) of
              Inl e \<Rightarrow> Inl e
            | Inr (sample, g') \<Rightarrow>
                (let prompt = lifespan_prompt sample;
                     st2 = st1\<lparr>random_state := g', prompt_var := Some prompt\<rparr>
                 in case call_advisory cl prompt st2 of
                      Inl e \<Rightarrow> Inl e
                    | Inr (advisory, st3) \<Rightarrow>
                        Inr (display (Info advisory)
                              (display (Markdown (ascii ''**GenAI Insight for '' @ Asset_ID sample @ ascii ''**''))
                                 st3))))
         else Inr st1)"

text \<open>
  \<open>sort_values(column, ascending=False).head(5)\<close>. Rows with equal keys are kept in
  table order here. The default sorting routine of pandas is not stable, so among rows
  with equal keys the program may pick and order others; the keys of the rows picked
  are the same.
\<close>

definition top5_by :: "(asset \<Rightarrow> real) \<Rightarrow> asset list \<Rightarrow> asset list" where
  "top5_by column df = take 5 (sort_key (\<lambda>row. - column row) df)"

text \<open>
  The loop of \<open>tabs[3]\<close> over \<open>corroding.iterrows()\<close>: the heading names the row, the
  argument of \<open>genai_advisory\<close> is the variable \<open>prompt\<close>.
\<close>

fun corrosion_loop :: "client \<Rightarrow> asset list \<Rightarrow> state \<Rightarrow> error + state" where
  "corrosion_loop cl [] st = Inr st"
| "corrosion_loop cl (row # rows) st =
     (let st1 = display (Markdown (ascii ''**Corrosion Summary for '' @ Asset_ID row @ ascii ''**'')) st
      in case read_prompt st1 of
           Inl e \<Rightarrow> Inl e
         | Inr prompt \<Rightarrow>
             (case call_advisory cl prompt st1 of
                Inl e \<Rightarrow> Inl e
              | Inr (advisory, st2) \<Rightarrow> corrosion_loop cl rows (display (Warning advisory) st2)))"

definition tabs3 :: "client \<Rightarrow> state \<Rightarrow> error + state" where
  "tabs3 cl st =
     (let corroding = top5_by Corrosion_Level (assets_df st);
          st1 = display (Pyplot (map (\<lambda>row. (Asset_ID row, Corrosion_Level row)) corroding)) st
      in corrosion_loop cl corroding st1)"

text \<open>The loop of \<open>tabs[4]\<close> over \<open>risky.iterrows()\<close>, written like the one of \<open>tabs[3]\<close>.\<close>

fun failure_loop :: "client \<Rightarrow> asset list \<Rightarrow> state \<Rightarrow> error + state" where
  "failure_loop cl [] st = Inr st"
| "failure_loop cl (row # rows) st =
     (let st1 = display (Markdown (ascii ''**Failure Mode Prediction for '' @ Asset_ID row @ ascii ''**'')) st
      in case read_prompt st1 of
           Inl e \<Rightarrow> Inl e
         | Inr prompt \<Rightarrow>
             (case call_advisory cl prompt st1 of
                Inl e \<Rightarrow> Inl e
              | Inr (advisory, st2) \<Rightarrow> failure_loop cl rows (display (Error advisory) st2)))"

definition tabs4 :: "client \<Rightarrow> state \<Rightarrow> error + state" where
  "tabs4 cl st = failure_loop cl (top5_by Degradation_pct (assets_df st)) st"

text \<open>
  \<open>tabs[5]\<close>: the field-report panel; \<open>note\<close> is the text of the text area and \<open>button\<close>
  tells whether the button was pressed in this run.
\<close>

definition tabs5 :: "client \<Rightarrow> str \<Rightarrow> bool \<Rightarrow> state \<Rightarrow> error + state" where
  "tabs5 cl note button st =
     (if button then
        (let prompt = report_prompt note; st1 = st\<lparr>prompt_var := Some prompt\<rparr>
         in case call_advisory cl prompt st1 of
              Inl e \<Rightarrow> Inl e
            | Inr (advisory, st2) \<Rightarrow> Inr (display (Success advisory) st2))
      else Inr st)"

text \<open>\<open>tabs[6]\<close>: the regulatory panel.\<close>

definition tabs6 :: "client \<Rightarrow> state \<Rightarrow> error + state" where
  "tabs6 cl st =
     (case sample_1 (assets_df st) (random_state st) of
        Inl e \<Rightarrow> Inl e
      | Inr (sample, g') \<Rightarrow>
          (let prompt = compliance_prompt sample;
               st1 = st\<lparr>random_state := g', prompt_var := Some prompt\<rparr>
           in case call_advisory cl prompt st1 of
                Inl e \<Rightarrow> Inl e
              | Inr (advisory, st2) \<Rightarrow> Inr (display (Info advisory) st2)))"

text \<open>
  \<open>Series.apply(f)\<close> for an \<open>f\<close> that draws from the random source: one call per
  element, in order.
\<close>

fun series_apply :: "('a \<Rightarrow> rng \<Rightarrow> 'b \<times> rng) \<Rightarrow> 'a list \<Rightarrow> rng \<Rightarrow> 'b list \<times> rng" where
  "series_apply f [] g = ([], g)"
| "series_apply f (x # xs) g =
     (let (y, g') = f x g; (ys, g'') = series_apply f xs g' in (y # ys, g''))"

text \<open>
  \<open>tabs[7]\<close>: the cost panel. The two assignments add a column each to \<open>low_rul\<close>, the
  filtered copy; \<open>today\<close> is the day number of \<open>pd.to_datetime('today')\<close> and
  \<open>total_cost\<close> is the variable \<open>total\<close>.
\<close>

definition tabs7 :: "client \<Rightarrow> int \<Rightarrow> state \<Rightarrow> error + state" where
  "tabs7 cl today st =
     (let low_rul = filter (\<lambda>row. RUL_months row \<le> 6) (assets_df st)
      in if low_rul \<noteq> [] then
           (let (costs, g') = series_apply get_equipment_cost (map Type low_rul) (random_state st);
                low_rul' = map (\<lambda>(row, cost). asset.extend row
                                  (cost_row.fields cost (today + RUL_months row * 30)))
                             (zip low_rul costs);
                st1 = display (Dataframe (map (\<lambda>row. [Text (Asset_ID row), Text (Type row),
                                   Text (Location row), Number (RUL_months row),
                                   Number (Replacement_Cost row), Day (Replace_By row)]) low_rul'))
                        (st\<lparr>random_state := g', low_rul_var := Some low_rul'\<rparr>);
                total_cost = sum_list (map Replacement_Cost low_rul');
                prompt = cost_prompt total_cost;
                st2 = st1\<lparr>prompt_var := Some prompt\<rparr>
            in case call_advisory cl prompt st2 of
                 Inl e \<Rightarrow> Inl e
               | Inr (advisory, st3) \<Rightarrow> Inr (display (Success advisory) st3))
         else Inr (display (Info (ascii ''No assets nearing end of life.''))
                     (st\<lparr>low_rul_var := Some []\<rparr>)))"

text \<open>\<open>sub in s\<close> on strings.\<close>

fun contains :: "str \<Rightarrow> str \<Rightarrow> bool" where
  "contains sub [] = (sub = [])"
| "contains sub (c # cs) = (take (length sub) (c # cs) = sub \<or> contains sub cs)"

text \<open>Lines 225 to 228: where the work-order panel shows its advisory.\<close>

definition show_work_order :: "str \<Rightarrow> widget" where
  "show_work_order advisory = (if contains warning_sign advisory then Error advisory else Info advisory)"

text \<open>\<open>tabs[8]\<close>: the work-order panel; code point 9989 is the check mark of the literal.\<close>

definition tabs8 :: "client \<Rightarrow> state \<Rightarrow> error + state" where
  "tabs8 cl st =
     (let critical_assets = filter (\<lambda>row. RUL_months row \<le> 3) (assets_df st)
      in if critical_assets = [] then
           Inr (display (Success ([9989] @ ascii '' No urgent work orders required.'')) st)
         else
           (let st1 = display (Dataframe (map (\<lambda>row. [Text (Asset_ID row), Text (Type row),
                                  Text (Location row), Text (Status row),
                                  Number (RUL_months row)]) critical_assets)) st
            in case sample_1 critical_assets (random_state st1) of
                 Inl e \<Rightarrow> Inl e
               | Inr (sample, g') \<Rightarrow>
                   (let prompt = work_order_prompt sample;
                        st2 = st1\<lparr>random_state := g', prompt_var := Some prompt\<rparr>
                    in case call_advisory cl prompt st2 of
                         Inl e \<Rightarrow> Inl e
                       | Inr (advisory, st3) \<Rightarrow> Inr (display (show_work_order advisory) st3))))"

text \<open>Sequencing: an exception ends the run.\<close>

definition and_then :: "error + 'a \<Rightarrow> ('a \<Rightarrow> error + 'b) \<Rightarrow> error + 'b" where
  "and_then r f = (case r of Inl e \<Rightarrow> Inl e | Inr x \<Rightarrow> f x)"

text \<open>The state in which the panels start: the table is generated, nothing else is bound.\<close>

definition initial_state :: "int \<Rightarrow> rng \<Rightarrow> state" where
  "initial_state today g =
     (let (assets, g') = generate_assets today g
      in \<lparr>assets_df = assets, prompt_var = None, low_rul_var = None, random_state = g',
          sent = [], shown = []\<rparr>)"

text \<open>One run of the script, top to bottom.\<close>

definition script :: "client \<Rightarrow> str \<Rightarrow> bool \<Rightarrow> int \<Rightarrow> rng \<Rightarrow> error + state" where
  "script cl note button today g =
     and_then (and_then (and_then (and_then (and_then (and_then (and_then
       (tabs1 (initial_state today g))
       (tabs2 cl)) (tabs3 cl)) (tabs4 cl)) (tabs5 cl note button)) (tabs6 cl))
       (tabs7 cl today)) (tabs8 cl)"

text \<open>
  Streamlit executes the whole script again, in the same process, on every widget
  event, and \<open>st.button\<close> reads \<open>True\<close> only in the execution that its click starts.
  The module \<open>random\<close> is loaded once per process, so an execution draws from the random
  source where the execution before it stopped. \<open>rerun\<close> is the execution that follows
  one which ended in the state \<open>st\<close>.
\<close>

definition rerun :: "client \<Rightarrow> str \<Rightarrow> bool \<Rightarrow> int \<Rightarrow> state \<Rightarrow> error + state" where
  "rerun cl note button today st = script cl note button today (random_state st)"

text \<open>
  A widget without the wording of its message: what remains is the call that showed it
  (\<open>st.info\<close>, \<open>st.warning\<close>, \<open>st.error\<close> or \<open>st.success\<close>). Tables, charts and
  headings are kept as they are.
\<close>

fun blank :: "widget \<Rightarrow> widget" where
  "blank (Info s) = Info []"
| "blank (Warning s) = Warning []"
| "blank (Error s) = Error []"
| "blank (Success s) = Success []"
| "blank w = w"

section \<open>Properties of the generator\<close>

lemma new_asset_const_rul:
  "RUL_months (fst (new_asset today i eq (\<lambda>_. c))) = 1 + int (c mod 36)"
  by (simp add: new_asset_def randint_def choice_def uniform_def next_draw_def Let_def)

lemma new_asset_id_type:
  "Asset_ID (fst (new_asset today i eq g)) = ascii ''A'' @ format_04d i"
  "Type (fst (new_asset today i eq g)) = eq"
  by (simp_all add: new_asset_def Let_def case_prod_beta)

lemma for_range_structure:
  "map Asset_ID (fst (for_range today eq n (assets, i, g))) =
     map Asset_ID assets @ map (\<lambda>k. ascii ''A'' @ format_04d (i + int k)) [0..<n]
   \<and> map Type (fst (for_range today eq n (assets, i, g))) = map Type assets @ replicate n eq
   \<and> fst (snd (for_range today eq n (assets, i, g))) = i + int n"
proof (induction n arbitrary: assets i g)
  case 0
  show ?case by simp
next
  case (Suc n)
  obtain a g' where a: "new_asset today i eq g = (a, g')" by (cases "new_asset today i eq g")
  have ida: "Asset_ID a = ascii ''A'' @ format_04d i" and tya: "Type a = eq"
    using new_asset_id_type [of today i eq g] a by simp_all
  have shift: "map (\<lambda>k. ascii ''A'' @ format_04d (i + int k)) [0..<Suc n] =
      (ascii ''A'' @ format_04d i) # map (\<lambda>k. ascii ''A'' @ format_04d (i + 1 + int k)) [0..<n]"
    by (simp add: upt_conv_Cons map_Suc_upt [symmetric] del: upt_Suc) (simp add: add.commute add.left_commute)
  show ?case
    using Suc.IH [of "assets @ [a]" "i + 1" g'] a ida tya shift
    by (simp add: replicate_app_Cons_same del: upt_Suc)
qed

lemma upt_split: "[0..<n + m] = [0..<n] @ map (\<lambda>k. n + k) [0..<m]"
  by (induction m) simp_all

lemma for_items_structure:
  "map Asset_ID (fst (for_items today items (assets, i, g))) =
     map Asset_ID assets @
     map (\<lambda>k. ascii ''A'' @ format_04d (i + int k)) [0..<sum_list (map snd items)]
   \<and> map Type (fst (for_items today items (assets, i, g))) =
     map Type assets @ concat (map (\<lambda>(eq, count). replicate count eq) items)"
proof (induction items arbitrary: assets i g)
  case Nil
  show ?case by simp
next
  case (Cons item items)
  obtain eq n where item: "item = (eq, n)" by (cases item)
  obtain assets' i' g' where r: "for_range today eq n (assets, i, g) = (assets', i', g')"
    by (cases "for_range today eq n (assets, i, g)")
  have ids: "map Asset_ID assets' =
      map Asset_ID assets @ map (\<lambda>k. ascii ''A'' @ format_04d (i + int k)) [0..<n]"
    and tys: "map Type assets' = map Type assets @ replicate n eq"
    and cnt: "i' = i + int n"
    using for_range_structure [of today eq n assets i g] r by simp_all
  let ?m = "sum_list (map snd items)"
  have upt: "[0..<n + ?m] = [0..<n] @ map (\<lambda>k. n + k) [0..<?m]"
    by (rule upt_split)
  have split: "map (\<lambda>k. ascii ''A'' @ format_04d (i + int k)) [0..<n + ?m] =
      map (\<lambda>k. ascii ''A'' @ format_04d (i + int k)) [0..<n] @
      map (\<lambda>k. ascii ''A'' @ format_04d (i + int n + int k)) [0..<?m]"
    unfolding upt by (simp add: comp_def add.assoc del: upt_Suc)
  show ?case
    using Cons.IH [of assets' i' g'] item r ids tys cnt split by (simp del: upt_Suc)
qed


lemma ids_sorted: "successively (<) (map (\<lambda>k. ascii ''A'' @ format_04d (int k)) [1..<141])"
  by code_simp

lemma ids_width: "list_all (\<lambda>s. length s = 5) (map (\<lambda>k. ascii ''A'' @ format_04d (int k)) [1..<141])"
  by code_simp

text \<open>
  Claim C2. Whatever the random source draws, \<open>generate_assets\<close> returns 140 records;
  their types are 30 times Pump, 10 Compressor, 5 Turbine, 10 Heat Exchanger, 10 Tank,
  5 Vessel, 15 Pipeline, 10 Motor, 5 Control Panel and 40 Sensor, in this order; the
  identifier of the i-th record is \<open>A\<close> followed by \<open>i\<close> in the format \<open>04d\<close>, which has
  four digits for each of them; the identifiers are pairwise different and strictly
  increasing as strings.
\<close>

theorem generate_assets_structure:
  "length (fst (generate_assets today g)) = 140 \<and>
   map Type (fst (generate_assets today g)) =
     replicate 30 (ascii ''Pump'') @ replicate 10 (ascii ''Compressor'') @
     replicate 5 (ascii ''Turbine'') @ replicate 10 (ascii ''Heat Exchanger'') @
     replicate 10 (ascii ''Tank'') @ replicate 5 (ascii ''Vessel'') @
     replicate 15 (ascii ''Pipeline'') @ replicate 10 (ascii ''Motor'') @
     replicate 5 (ascii ''Control Panel'') @ replicate 40 (ascii ''Sensor'') \<and>
   map Asset_ID (fst (generate_assets today g)) =
     map (\<lambda>i. ascii ''A'' @ format_04d (int i)) [1..<141] \<and>
   list_all (\<lambda>s. length s = 5) (map Asset_ID (fst (generate_assets today g))) \<and>
   distinct (map Asset_ID (fst (generate_assets today g))) \<and>
   sorted_wrt (<) (map Asset_ID (fst (generate_assets today g)))"
proof -
  let ?xs = "fst (generate_assets today g)"
  have gen: "?xs = fst (for_items today equipment_types ([], 1, g))"
    by (simp add: generate_assets_def case_prod_beta)
  have total: "sum_list (map snd equipment_types) = 140"
    by (simp add: equipment_types_def)
  have ids0: "map Asset_ID ?xs = map (\<lambda>k. ascii ''A'' @ format_04d (1 + int k)) [0..<140]"
    using for_items_structure [of today equipment_types "[]" 1 g] gen total by simp
  have "map (\<lambda>i. ascii ''A'' @ format_04d (int i)) [1..<141] =
        map (\<lambda>i. ascii ''A'' @ format_04d (int i)) (map Suc [0..<140])"
    by (simp only: map_Suc_upt) simp
  also have "\<dots> = map (\<lambda>k. ascii ''A'' @ format_04d (1 + int k)) [0..<140]"
    by (simp add: comp_def add.commute del: upt_Suc)
  finally have ids: "map Asset_ID ?xs = map (\<lambda>i. ascii ''A'' @ format_04d (int i)) [1..<141]"
    using ids0 by simp
  have tys: "map Type ?xs =
     replicate 30 (ascii ''Pump'') @ replicate 10 (ascii ''Compressor'') @
     replicate 5 (ascii ''Turbine'') @ replicate 10 (ascii ''Heat Exchanger'') @
     replicate 10 (ascii ''Tank'') @ replicate 5 (ascii ''Vessel'') @
     replicate 15 (ascii ''Pipeline'') @ replicate 10 (ascii ''Motor'') @
     replicate 5 (ascii ''Control Panel'') @ replicate 40 (ascii ''Sensor'')"
    using for_items_structure [of today equipment_types "[]" 1 g] gen
    by (simp add: equipment_types_def)
  have len: "length ?xs = 140"
  proof -
    have "length (map Asset_ID ?xs) = 140" unfolding ids by simp
    then show ?thesis by simp
  qed
  have srt: "sorted_wrt (<) (map Asset_ID ?xs)"
    unfolding ids using ids_sorted
    by (simp only: successively_conv_sorted_wrt [OF transp_on_less])
  have dst: "distinct (map Asset_ID ?xs)"
    using srt strict_sorted_iff by blast
  show ?thesis
    using len tys ids ids_width srt dst by (simp only: simp_thms)
qed

section \<open>Risk colouring\<close>

text \<open>
  Claim C1. \<open>color_row\<close> colours a row red when its RUL is at most 3, yellow when it is
  above 3 and at most 6, and light green when it is above 6, so it is defined on every
  integer, with both boundaries inclusive. \<open>highlight_lifespan\<close> has the same two
  thresholds for red and yellow and leaves a row above 6 without a style; on the table
  it is applied to, the rows with RUL at most 6, it colours every row as \<open>color_row\<close>
  does.
\<close>

theorem risk_colouring:
  "(RUL_months row \<le> 3 \<longrightarrow>
      color_row row = replicate 11 (ascii ''background-color: red'') \<and>
      highlight_lifespan row = replicate 11 (ascii ''background-color: red'')) \<and>
   (3 < RUL_months row \<and> RUL_months row \<le> 6 \<longrightarrow>
      color_row row = replicate 11 (ascii ''background-color: yellow'') \<and>
      highlight_lifespan row = replicate 11 (ascii ''background-color: yellow'')) \<and>
   (6 < RUL_months row \<longrightarrow>
      color_row row = replicate 11 (ascii ''background-color: lightgreen'') \<and>
      highlight_lifespan row = replicate 11 []) \<and>
   map highlight_lifespan (filter (\<lambda>row. RUL_months row \<le> 6) df) =
     map color_row (filter (\<lambda>row. RUL_months row \<le> 6) df)"
  by (simp add: color_row_def highlight_lifespan_def len_row_def)


theorem risk_colouring_witness:
  "RUL_months (fst (new_asset 0 1 (ascii ''Pump'') (\<lambda>_. 2))) = 3 \<and>
   color_row (fst (new_asset 0 1 (ascii ''Pump'') (\<lambda>_. 2))) =
     replicate 11 (ascii ''background-color: red'') \<and>
   RUL_months (fst (new_asset 0 1 (ascii ''Pump'') (\<lambda>_. 3))) = 4 \<and>
   color_row (fst (new_asset 0 1 (ascii ''Pump'') (\<lambda>_. 3))) =
     replicate 11 (ascii ''background-color: yellow'') \<and>
   RUL_months (fst (new_asset 0 1 (ascii ''Pump'') (\<lambda>_. 5))) = 6 \<and>
   highlight_lifespan (fst (new_asset 0 1 (ascii ''Pump'') (\<lambda>_. 5))) =
     replicate 11 (ascii ''background-color: yellow'') \<and>
   RUL_months (fst (new_asset 0 1 (ascii ''Pump'') (\<lambda>_. 6))) = 7 \<and>
   color_row (fst (new_asset 0 1 (ascii ''Pump'') (\<lambda>_. 6))) =
     replicate 11 (ascii ''background-color: lightgreen'')"
  using risk_colouring [of "fst (new_asset 0 1 (ascii ''Pump'') (\<lambda>_. 2))" "[]"]
        risk_colouring [of "fst (new_asset 0 1 (ascii ''Pump'') (\<lambda>_. 3))" "[]"]
        risk_colouring [of "fst (new_asset 0 1 (ascii ''Pump'') (\<lambda>_. 5))" "[]"]
        risk_colouring [of "fst (new_asset 0 1 (ascii ''Pump'') (\<lambda>_. 6))" "[]"]
  by (simp add: new_asset_const_rul)

section \<open>The advisory client never raises\<close>

lemma strip_spec:
  "\<exists>a b. t = a @ strip t @ b \<and> list_all isspace a \<and> list_all isspace b \<and>
     (strip t = [] \<or> (\<not> isspace (hd (strip t)) \<and> \<not> isspace (last (strip t))))"
proof -
  let ?m = "dropWhile isspace t"
  let ?a = "takeWhile isspace t"
  let ?b = "rev (takeWhile isspace (rev ?m))"
  have s: "strip t = rev (dropWhile isspace (rev ?m))" by (simp add: strip_def)
  have "strip t @ ?b = rev (takeWhile isspace (rev ?m) @ dropWhile isspace (rev ?m))"
    by (simp only: s rev_append)
  also have "\<dots> = ?m"
    by (simp only: takeWhile_dropWhile_id rev_rev_ident)
  finally have m: "?m = strip t @ ?b" by (rule sym)
  have t: "t = ?a @ strip t @ ?b" using m takeWhile_dropWhile_id [of isspace t] by simp
  have a: "list_all isspace ?a" by (simp add: list_all_iff) (meson set_takeWhileD)
  have b: "list_all isspace ?b" by (simp add: list_all_iff) (meson set_takeWhileD)
  have ends: "\<not> isspace (hd (strip t)) \<and> \<not> isspace (last (strip t))" if ne: "strip t \<noteq> []"
  proof
    have "?m \<noteq> []" using m ne by (metis append_is_Nil_conv)
    then have "\<not> isspace (hd ?m)" by (rule hd_dropWhile)
    moreover have "hd ?m = hd (strip t)" using m ne by (metis hd_append2)
    ultimately show "\<not> isspace (hd (strip t))" by simp
    have "dropWhile isspace (rev ?m) \<noteq> []" using ne s by (metis rev_is_Nil_conv)
    then have "\<not> isspace (hd (dropWhile isspace (rev ?m)))" by (rule hd_dropWhile)
    then show "\<not> isspace (last (strip t))" using ne s by (simp add: last_rev)
  qed
  show ?thesis using t a b ends by blast
qed

text \<open>
  Claim C4. \<open>genai_advisory\<close> returns a string for every prompt and every behaviour
  of the chat-completion call. When the call returns a response whose first choice has
  text content, the result is that text stripped: the text is the result between two
  runs of whitespace, and the result neither starts nor ends with whitespace. When the
  call raises, the result is the warning sign (code points 9888 and 65039) followed by
  \<open>" GenAI Error: "\<close> and the message of the exception. A response without choices,
  or with no content in its first choice, raises inside the \<open>try\<close> block and is
  reported in the same way.
\<close>

theorem genai_advisory_total:
  "(\<exists>s. genai_advisory create model prompt = Inr s) \<and>
   (create model [(ascii ''system'', ascii ''You are an asset integrity advisor.''),
                  (ascii ''user'', prompt)] = Inr (Response (Some content # rest)) \<longrightarrow>
      genai_advisory create model prompt = Inr (strip content) \<and>
      (\<exists>a b. content = a @ strip content @ b \<and> list_all isspace a \<and> list_all isspace b \<and>
         (strip content = [] \<or> (\<not> isspace (hd (strip content)) \<and> \<not> isspace (last (strip content)))))) \<and>
   (create model [(ascii ''system'', ascii ''You are an asset integrity advisor.''),
                  (ascii ''user'', prompt)] = Inl e \<longrightarrow>
      genai_advisory create model prompt =
        Inr ([9888, 65039] @ ascii '' GenAI Error: '' @ str_error e)) \<and>
   (create model [(ascii ''system'', ascii ''You are an asset integrity advisor.''),
                  (ascii ''user'', prompt)] = Inr (Response []) \<longrightarrow>
      genai_advisory create model prompt =
        Inr ([9888, 65039] @ ascii '' GenAI Error: '' @ str_error IndexError)) \<and>
   (create model [(ascii ''system'', ascii ''You are an asset integrity advisor.''),
                  (ascii ''user'', prompt)] = Inr (Response (None # rest)) \<longrightarrow>
      genai_advisory create model prompt =
        Inr ([9888, 65039] @ ascii '' GenAI Error: '' @ str_error AttributeError))"
proof -
  have total: "\<exists>s. genai_advisory create model prompt = Inr s"
    by (simp add: genai_advisory_def split: sum.splits)
  show ?thesis
    using total strip_spec [of content]
    by (simp add: genai_advisory_def advisory_try_def warning_sign_def)
qed

theorem genai_advisory_total_witness:
  "genai_advisory (\<lambda>model messages. Inl (APIError (ascii ''timeout''))) None (ascii ''hello'') =
     Inr ([9888, 65039] @ ascii '' GenAI Error: timeout'') \<and>
   genai_advisory (\<lambda>model messages. Inr (Response [Some (ascii '' Inspect the pump. '' @ [10])]))
       None (ascii ''hello'') = Inr (ascii ''Inspect the pump.'') \<and>
   genai_advisory (\<lambda>model messages. Inr (Response [])) None (ascii ''hello'') =
     Inr ([9888, 65039] @ ascii '' GenAI Error: list index out of range'')"
  using genai_advisory_total [of "\<lambda>model messages. Inl (APIError (ascii ''timeout''))" None
          "ascii ''hello''" "[]" "[]" "APIError (ascii ''timeout'')"]
        genai_advisory_total [of "\<lambda>model messages. Inr (Response [Some (ascii '' Inspect the pump. '' @ [10])])"
          None "ascii ''hello''" "ascii '' Inspect the pump. '' @ [10]" "[]" NameError]
        genai_advisory_total [of "\<lambda>model messages. Inr (Response [])" None "ascii ''hello''" "[]" "[]" NameError]
  by (simp add: strip_def isspace_def ascii_def)

section \<open>Ranges of the draws\<close>

lemma randint_ge: "a \<le> b \<Longrightarrow> a \<le> fst (randint a b g)"
  by (simp add: randint_def next_draw_def)

lemma randint_le: "a \<le> b \<Longrightarrow> fst (randint a b g) \<le> b"
proof -
  assume ab: "a \<le> b"
  then have "0 < nat (b - a + 1)" by simp
  then have "g 0 mod nat (b - a + 1) < nat (b - a + 1)" by (rule mod_less_divisor)
  then have "int (g 0 mod nat (b - a + 1)) < b - a + 1" using ab by linarith
  then show ?thesis by (simp add: randint_def next_draw_def)
qed

lemma uniform_ge: "a \<le> b \<Longrightarrow> a \<le> fst (uniform a b g)"
  by (simp add: uniform_def next_draw_def)

lemma uniform_le: "a \<le> b \<Longrightarrow> fst (uniform a b g) \<le> b"
proof -
  assume ab: "a \<le> b"
  let ?u = "real (g 0 mod 2 ^ 53) / 2 ^ 53"
  have "g 0 mod 2 ^ 53 < 2 ^ 53" by simp
  then have "real (g 0 mod 2 ^ 53) \<le> 2 ^ 53"
    by (metis less_imp_le of_nat_le_iff of_nat_numeral of_nat_power)
  then have "?u \<le> 1" by simp
  then have "(b - a) * ?u \<le> (b - a) * 1" using ab by (intro mult_left_mono) simp_all
  then show ?thesis by (simp add: uniform_def next_draw_def)
qed

lemma py_round_ge:
  assumes "of_int A / 10 ^ n \<le> x"
  shows "of_int A / 10 ^ n \<le> py_round x n"
proof -
  have "of_int A \<le> x * 10 ^ n" using assms by (simp add: pos_divide_le_eq)
  then have "A \<le> \<lfloor>x * 10 ^ n\<rfloor>" by (simp add: le_floor_iff)
  then show ?thesis
    by (simp add: py_round_def Let_def divide_le_cancel)
qed

lemma py_round_le:
  assumes "x \<le> of_int B / 10 ^ n"
  shows "py_round x n \<le> of_int B / 10 ^ n"
proof -
  let ?y = "x * 10 ^ n"
  have yB: "?y \<le> of_int B" using assms by (simp add: pos_le_divide_eq)
  then have fB: "\<lfloor>?y\<rfloor> \<le> B" by (simp add: floor_le_iff)
  have up: "\<lfloor>?y\<rfloor> + 1 \<le> B" if "\<not> ?y - of_int \<lfloor>?y\<rfloor> < 1 / 2"
  proof -
    have "of_int \<lfloor>?y\<rfloor> < ?y" using that by linarith
    then have "of_int \<lfloor>?y\<rfloor> < (of_int B :: real)" using yB by linarith
    then have "\<lfloor>?y\<rfloor> < B" by simp
    then show ?thesis by simp
  qed
  show ?thesis
    using fB up by (simp add: py_round_def Let_def divide_le_cancel)
qed

lemma py_round_places: "of_int \<lfloor>py_round x n * 10 ^ n\<rfloor> = py_round x n * 10 ^ n"
  by (simp add: py_round_def Let_def)

lemma for_range_invariant:
  assumes step: "\<And>i g. I g \<Longrightarrow> P (fst (new_asset today i eq g)) \<and> I (snd (new_asset today i eq g))"
  shows "I g \<Longrightarrow> list_all P assets \<Longrightarrow>
     list_all P (fst (for_range today eq n (assets, i, g))) \<and>
     I (snd (snd (for_range today eq n (assets, i, g))))"
proof (induction n arbitrary: assets i g)
  case 0
  then show ?case by simp
next
  case (Suc n)
  obtain a g' where a: "new_asset today i eq g = (a, g')" by (cases "new_asset today i eq g")
  have "P a" and "I g'" using step [OF Suc.prems(1), of i] a by simp_all
  then show ?case
    using Suc.IH [of g' "assets @ [a]" "i + 1"] Suc.prems(2) a by simp
qed

lemma for_items_invariant:
  assumes step: "\<And>i eq g. I g \<Longrightarrow> P (fst (new_asset today i eq g)) \<and> I (snd (new_asset today i eq g))"
  shows "I g \<Longrightarrow> list_all P assets \<Longrightarrow>
     list_all P (fst (for_items today items (assets, i, g))) \<and>
     I (snd (snd (for_items today items (assets, i, g))))"
proof (induction items arbitrary: assets i g)
  case Nil
  then show ?case by simp
next
  case (Cons item items)
  obtain eq n where item: "item = (eq, n)" by (cases item)
  obtain assets' i' g' where r: "for_range today eq n (assets, i, g) = (assets', i', g')"
    by (cases "for_range today eq n (assets, i, g)")
  have "list_all P assets'" and "I g'"
    using for_range_invariant [of I P today eq g assets n i, OF step Cons.prems] r by simp_all
  then show ?case
    using Cons.IH [of g' assets' i'] item r by simp
qed

lemma generate_assets_invariant:
  assumes step: "\<And>i eq g. I g \<Longrightarrow> P (fst (new_asset today i eq g)) \<and> I (snd (new_asset today i eq g))"
    and g: "I g"
  shows "list_all P (fst (generate_assets today g)) \<and> I (snd (generate_assets today g))"
  using for_items_invariant [of I P today g "[]" equipment_types 1, OF step g]
  by (simp add: generate_assets_def case_prod_beta)

lemma new_asset_bounds:
  "1 \<le> Age_years (fst (new_asset today i eq g)) \<and> Age_years (fst (new_asset today i eq g)) \<le> 20 \<and>
   10 \<le> Degradation_pct (fst (new_asset today i eq g)) \<and>
   Degradation_pct (fst (new_asset today i eq g)) \<le> 90 \<and>
   1 / 10 \<le> Vibration (fst (new_asset today i eq g)) \<and>
   Vibration (fst (new_asset today i eq g)) \<le> 5 \<and>
   30 \<le> Temperature (fst (new_asset today i eq g)) \<and>
   Temperature (fst (new_asset today i eq g)) \<le> 120 \<and>
   0 \<le> Corrosion_Level (fst (new_asset today i eq g)) \<and>
   Corrosion_Level (fst (new_asset today i eq g)) \<le> 1 \<and>
   1 \<le> RUL_months (fst (new_asset today i eq g)) \<and> RUL_months (fst (new_asset today i eq g)) \<le> 36"
proof -
  have deg: "10 \<le> py_round (fst (uniform 10 90 h)) 2 \<and> py_round (fst (uniform 10 90 h)) 2 \<le> 90" for h
    using py_round_ge [of 1000 2 "fst (uniform 10 90 h)"] py_round_le [of "fst (uniform 10 90 h)" 9000 2]
      uniform_ge [of 10 90 h] uniform_le [of 10 90 h] by simp
  have vib: "1 / 10 \<le> py_round (fst (uniform (1 / 10) 5 h)) 2 \<and> py_round (fst (uniform (1 / 10) 5 h)) 2 \<le> 5" for h
    using py_round_ge [of 10 2 "fst (uniform (1 / 10) 5 h)"] py_round_le [of "fst (uniform (1 / 10) 5 h)" 500 2]
      uniform_ge [of "1 / 10" 5 h] uniform_le [of "1 / 10" 5 h] by simp
  have vib': "1 \<le> py_round (fst (uniform (1 / 10) 5 h)) 2 * 10" for h
    using vib [of h] by simp
  have temp: "30 \<le> py_round (fst (uniform 30 120 h)) 1 \<and> py_round (fst (uniform 30 120 h)) 1 \<le> 120" for h
    using py_round_ge [of 300 1 "fst (uniform 30 120 h)"] py_round_le [of "fst (uniform 30 120 h)" 1200 1]
      uniform_ge [of 30 120 h] uniform_le [of 30 120 h] by simp
  have cor: "0 \<le> py_round (fst (uniform 0 1 h)) 2 \<and> py_round (fst (uniform 0 1 h)) 2 \<le> 1" for h
    using py_round_ge [of 0 2 "fst (uniform 0 1 h)"] py_round_le [of "fst (uniform 0 1 h)" 100 2]
      uniform_ge [of 0 1 h] uniform_le [of 0 1 h] by simp
  show ?thesis
    by (simp add: new_asset_def Let_def case_prod_beta deg vib vib' temp [unfolded One_nat_def] cor
        randint_ge randint_le)
qed

text \<open>
  Claim C6. Whatever the random source draws, every record of \<open>generate_assets\<close> has
  its age in \<open>[1, 20]\<close>, its degradation in \<open>[10, 90]\<close> with two decimals, its vibration
  in \<open>[0.1, 5]\<close> with two decimals, its temperature in \<open>[30, 120]\<close> with one decimal, its
  corrosion level in \<open>[0, 1]\<close> with two decimals and its RUL in \<open>[1, 36]\<close>; a value has
  \<open>n\<close> decimals when its product with \<open>10\<^sup>n\<close> is a whole number.
\<close>

theorem generated_fields_in_bounds:
  "list_all (\<lambda>row.
       1 \<le> Age_years row \<and> Age_years row \<le> 20 \<and>
       10 \<le> Degradation_pct row \<and> Degradation_pct row \<le> 90 \<and>
       of_int \<lfloor>Degradation_pct row * 100\<rfloor> = Degradation_pct row * 100 \<and>
       1 / 10 \<le> Vibration row \<and> Vibration row \<le> 5 \<and>
       of_int \<lfloor>Vibration row * 100\<rfloor> = Vibration row * 100 \<and>
       30 \<le> Temperature row \<and> Temperature row \<le> 120 \<and>
       of_int \<lfloor>Temperature row * 10\<rfloor> = Temperature row * 10 \<and>
       0 \<le> Corrosion_Level row \<and> Corrosion_Level row \<le> 1 \<and>
       of_int \<lfloor>Corrosion_Level row * 100\<rfloor> = Corrosion_Level row * 100 \<and>
       1 \<le> RUL_months row \<and> RUL_months row \<le> 36)
     (fst (generate_assets today g))"
proof -
  have places: "of_int \<lfloor>Degradation_pct (fst (new_asset today i eq h)) * 100\<rfloor> =
        Degradation_pct (fst (new_asset today i eq h)) * 100 \<and>
      of_int \<lfloor>Vibration (fst (new_asset today i eq h)) * 100\<rfloor> =
        Vibration (fst (new_asset today i eq h)) * 100 \<and>
      of_int \<lfloor>Temperature (fst (new_asset today i eq h)) * 10\<rfloor> =
        Temperature (fst (new_asset today i eq h)) * 10 \<and>
      of_int \<lfloor>Corrosion_Level (fst (new_asset today i eq h)) * 100\<rfloor> =
        Corrosion_Level (fst (new_asset today i eq h)) * 100" for i eq h
    using py_round_places [of _ 2] py_round_places [of _ 1]
    by (simp add: new_asset_def Let_def case_prod_beta del: One_nat_def)
  show ?thesis
    using generate_assets_invariant [of "\<lambda>_. True" _ today g, THEN conjunct1]
      new_asset_bounds places
    by simp
qed

section \<open>The cost catalogue\<close>

text \<open>
  Claim C5. For each of the ten known types \<open>get_equipment_cost\<close> returns an integer
  of the range of that type, whatever the random source draws, and for every other
  string it returns 10000.
\<close>

theorem get_equipment_cost_ranges:
  "fst (get_equipment_cost (ascii ''Pump'') g) \<in> {5000..15000} \<and>
   fst (get_equipment_cost (ascii ''Compressor'') g) \<in> {20000..60000} \<and>
   fst (get_equipment_cost (ascii ''Turbine'') g) \<in> {40000..120000} \<and>
   fst (get_equipment_cost (ascii ''Tank'') g) \<in> {15000..40000} \<and>
   fst (get_equipment_cost (ascii ''Sensor'') g) \<in> {500..3000} \<and>
   fst (get_equipment_cost (ascii ''Pipeline'') g) \<in> {10000..30000} \<and>
   fst (get_equipment_cost (ascii ''Motor'') g) \<in> {8000..20000} \<and>
   fst (get_equipment_cost (ascii ''Control Panel'') g) \<in> {5000..15000} \<and>
   fst (get_equipment_cost (ascii ''Heat Exchanger'') g) \<in> {10000..25000} \<and>
   fst (get_equipment_cost (ascii ''Vessel'') g) \<in> {12000..35000} \<and>
   (eq_type \<notin> set [ascii ''Pump'', ascii ''Compressor'', ascii ''Turbine'', ascii ''Tank'',
                     ascii ''Sensor'', ascii ''Pipeline'', ascii ''Motor'', ascii ''Control Panel'',
                     ascii ''Heat Exchanger'', ascii ''Vessel''] \<longrightarrow>
      fst (get_equipment_cost eq_type g) = 10000)"
proof -
  have known: "fst (get_equipment_cost (ascii ''Pump'') g) \<in> {5000..15000}"
    "fst (get_equipment_cost (ascii ''Compressor'') g) \<in> {20000..60000}"
    "fst (get_equipment_cost (ascii ''Turbine'') g) \<in> {40000..120000}"
    "fst (get_equipment_cost (ascii ''Tank'') g) \<in> {15000..40000}"
    "fst (get_equipment_cost (ascii ''Sensor'') g) \<in> {500..3000}"
    "fst (get_equipment_cost (ascii ''Pipeline'') g) \<in> {10000..30000}"
    "fst (get_equipment_cost (ascii ''Motor'') g) \<in> {8000..20000}"
    "fst (get_equipment_cost (ascii ''Control Panel'') g) \<in> {5000..15000}"
    "fst (get_equipment_cost (ascii ''Heat Exchanger'') g) \<in> {10000..25000}"
    "fst (get_equipment_cost (ascii ''Vessel'') g) \<in> {12000..35000}"
    by (simp_all add: get_equipment_cost_def Let_def case_prod_beta ascii_def randint_ge randint_le)
  have other: "fst (get_equipment_cost eq_type g) = 10000"
    if "eq_type \<notin> set [ascii ''Pump'', ascii ''Compressor'', ascii ''Turbine'', ascii ''Tank'',
                     ascii ''Sensor'', ascii ''Pipeline'', ascii ''Motor'', ascii ''Control Panel'',
                     ascii ''Heat Exchanger'', ascii ''Vessel'']"
    using that by (simp add: get_equipment_cost_def Let_def case_prod_beta)
  show ?thesis using known other by (simp only: simp_thms) blast
qed

theorem get_equipment_cost_ranges_witness:
  "ascii ''Valve'' \<notin> set [ascii ''Pump'', ascii ''Compressor'', ascii ''Turbine'', ascii ''Tank'',
                     ascii ''Sensor'', ascii ''Pipeline'', ascii ''Motor'', ascii ''Control Panel'',
                     ascii ''Heat Exchanger'', ascii ''Vessel''] \<and>
   fst (get_equipment_cost (ascii ''Valve'') (\<lambda>n. 7 * n + 3)) = 10000 \<and>
   fst (get_equipment_cost (ascii ''Pump'') (\<lambda>n. 7 * n + 3)) = 5003 \<and>
   fst (get_equipment_cost (ascii ''Pump'') (\<lambda>n. 7 * n + 3)) \<in> {5000..15000}"
proof -
  have v: "ascii ''Valve'' \<notin> set [ascii ''Pump'', ascii ''Compressor'', ascii ''Turbine'', ascii ''Tank'',
                     ascii ''Sensor'', ascii ''Pipeline'', ascii ''Motor'', ascii ''Control Panel'',
                     ascii ''Heat Exchanger'', ascii ''Vessel'']"
    by (simp add: ascii_def)
  have p: "fst (get_equipment_cost (ascii ''Pump'') (\<lambda>n. 7 * n + 3)) = 5003"
    by (simp add: get_equipment_cost_def Let_def case_prod_beta ascii_def randint_def next_draw_def)
  show ?thesis
    using get_equipment_cost_ranges [of "\<lambda>n. 7 * n + 3" "ascii ''Valve''"] v p by simp
qed

section \<open>The panels\<close>

lemma call_advisory_total:
  "\<exists>advisory. call_advisory cl p st = Inr (advisory, st\<lparr>sent := sent st @ [p]\<rparr>) \<and>
     genai_advisory (chat_create cl (length (sent st))) (DEPLOYMENT_NAME cl) p = Inr advisory"
  by (simp add: call_advisory_def genai_advisory_def split: sum.splits)

lemma corrosion_loop_bound:
  "prompt_var st = Some p \<Longrightarrow>
   \<exists>st'. corrosion_loop cl rows st = Inr st' \<and>
     sent st' = sent st @ replicate (length rows) p \<and>
     assets_df st' = assets_df st \<and> prompt_var st' = Some p \<and>
     random_state st' = random_state st \<and> low_rul_var st' = low_rul_var st \<and>
     map blank (shown st') = map blank (shown st) @
       concat (map (\<lambda>row. [Markdown (ascii ''**Corrosion Summary for '' @ Asset_ID row @ ascii ''**''),
                            Warning []]) rows)"
proof (induction rows arbitrary: st)
  case Nil
  then show ?case by simp
next
  case (Cons row rows)
  let ?st1 = "display (Markdown (ascii ''**Corrosion Summary for '' @ Asset_ID row @ ascii ''**'')) st"
  obtain advisory where adv: "call_advisory cl p ?st1 = Inr (advisory, ?st1\<lparr>sent := sent ?st1 @ [p]\<rparr>)"
    using call_advisory_total by blast
  let ?st2 = "display (Warning advisory) (?st1\<lparr>sent := sent ?st1 @ [p]\<rparr>)"
  have p2: "prompt_var ?st2 = Some p" using Cons.prems by (simp add: display_def)
  obtain st' where st': "corrosion_loop cl rows ?st2 = Inr st'"
    "sent st' = sent ?st2 @ replicate (length rows) p"
    "assets_df st' = assets_df ?st2" "prompt_var st' = Some p"
    "random_state st' = random_state ?st2" "low_rul_var st' = low_rul_var ?st2"
    "map blank (shown st') = map blank (shown ?st2) @
       concat (map (\<lambda>row. [Markdown (ascii ''**Corrosion Summary for '' @ Asset_ID row @ ascii ''**''),
                            Warning []]) rows)"
    using Cons.IH [OF p2] by blast
  have run: "corrosion_loop cl (row # rows) st = Inr st'"
    using Cons.prems adv st'(1) by (simp add: read_prompt_def display_def)
  show ?case
    using run st'(2-) by (simp add: display_def replicate_app_Cons_same)
qed

lemma failure_loop_bound:
  "prompt_var st = Some p \<Longrightarrow>
   \<exists>st'. failure_loop cl rows st = Inr st' \<and>
     sent st' = sent st @ replicate (length rows) p \<and>
     assets_df st' = assets_df st \<and> prompt_var st' = Some p \<and>
     random_state st' = random_state st \<and> low_rul_var st' = low_rul_var st \<and>
     map blank (shown st') = map blank (shown st) @
       concat (map (\<lambda>row. [Markdown (ascii ''**Failure Mode Prediction for '' @ Asset_ID row @ ascii ''**''),
                            Error []]) rows)"
proof (induction rows arbitrary: st)
  case Nil
  then show ?case by simp
next
  case (Cons row rows)
  let ?st1 = "display (Markdown (ascii ''**Failure Mode Prediction for '' @ Asset_ID row @ ascii ''**'')) st"
  obtain advisory where adv: "call_advisory cl p ?st1 = Inr (advisory, ?st1\<lparr>sent := sent ?st1 @ [p]\<rparr>)"
    using call_advisory_total by blast
  let ?st2 = "display (Error advisory) (?st1\<lparr>sent := sent ?st1 @ [p]\<rparr>)"
  have p2: "prompt_var ?st2 = Some p" using Cons.prems by (simp add: display_def)
  obtain st' where st': "failure_loop cl rows ?st2 = Inr st'"
    "sent st' = sent ?st2 @ replicate (length rows) p"
    "assets_df st' = assets_df ?st2" "prompt_var st' = Some p"
    "random_state st' = random_state ?st2" "low_rul_var st' = low_rul_var ?st2"
    "map blank (shown st') = map blank (shown ?st2) @
       concat (map (\<lambda>row. [Markdown (ascii ''**Failure Mode Prediction for '' @ Asset_ID row @ ascii ''**''),
                            Error []]) rows)"
    using Cons.IH [OF p2] by blast
  have run: "failure_loop cl (row # rows) st = Inr st'"
    using Cons.prems adv st'(1) by (simp add: read_prompt_def display_def)
  show ?case
    using run st'(2-) by (simp add: display_def replicate_app_Cons_same)
qed

lemma corrosion_loop_unbound:
  "prompt_var st = None \<Longrightarrow> rows \<noteq> [] \<Longrightarrow> corrosion_loop cl rows st = Inl NameError"
  by (cases rows) (simp_all add: read_prompt_def display_def)

lemma failure_loop_unbound:
  "prompt_var st = None \<Longrightarrow> rows \<noteq> [] \<Longrightarrow> failure_loop cl rows st = Inl NameError"
  by (cases rows) (simp_all add: read_prompt_def display_def)

lemma top5_by_length: "length (top5_by column df) = min 5 (length df)"
  by (simp add: top5_by_def min.commute)

lemma tabs3_bound:
  "prompt_var st = Some p \<Longrightarrow>
   \<exists>st'. tabs3 cl st = Inr st' \<and>
     sent st' = sent st @ replicate (length (top5_by Corrosion_Level (assets_df st))) p \<and>
     assets_df st' = assets_df st \<and> prompt_var st' = Some p \<and>
     random_state st' = random_state st \<and> low_rul_var st' = low_rul_var st"
  using corrosion_loop_bound [of "display (Pyplot (map (\<lambda>row. (Asset_ID row, Corrosion_Level row))
      (top5_by Corrosion_Level (assets_df st)))) st" p cl "top5_by Corrosion_Level (assets_df st)"]
  by (auto simp add: tabs3_def Let_def display_def)

lemma tabs4_bound:
  "prompt_var st = Some p \<Longrightarrow>
   \<exists>st'. tabs4 cl st = Inr st' \<and>
     sent st' = sent st @ replicate (length (top5_by Degradation_pct (assets_df st))) p \<and>
     assets_df st' = assets_df st \<and> prompt_var st' = Some p \<and>
     random_state st' = random_state st \<and> low_rul_var st' = low_rul_var st"
  using failure_loop_bound [of st p cl "top5_by Degradation_pct (assets_df st)"]
  by (auto simp add: tabs4_def)

lemma corrosion_loop_frame:
  "corrosion_loop cl rows st = Inr st' \<Longrightarrow> assets_df st' = assets_df st"
proof (cases "prompt_var st")
  case None
  assume run: "corrosion_loop cl rows st = Inr st'"
  then have "rows = []" using corrosion_loop_unbound [OF None, of rows cl] by auto
  then show ?thesis using run by simp
next
  case (Some p)
  assume "corrosion_loop cl rows st = Inr st'"
  then show ?thesis using corrosion_loop_bound [OF Some, of cl rows] by auto
qed

lemma failure_loop_frame:
  "failure_loop cl rows st = Inr st' \<Longrightarrow> assets_df st' = assets_df st"
proof (cases "prompt_var st")
  case None
  assume run: "failure_loop cl rows st = Inr st'"
  then have "rows = []" using failure_loop_unbound [OF None, of rows cl] by auto
  then show ?thesis using run by simp
next
  case (Some p)
  assume "failure_loop cl rows st = Inr st'"
  then show ?thesis using failure_loop_bound [OF Some, of cl rows] by auto
qed

lemma tabs2_empty:
  "filter (\<lambda>row. RUL_months row \<le> 6) (assets_df st) = [] \<Longrightarrow>
   tabs2 cl st = Inr (display (Styled_Dataframe []) st)"
  by (simp add: tabs2_def)

lemma tabs2_nonempty:
  assumes low: "low = filter (\<lambda>row. RUL_months row \<le> 6) (assets_df st)" and ne: "low \<noteq> []"
  shows "\<exists>st'. tabs2 cl st = Inr st' \<and>
     prompt_var st' = Some (lifespan_prompt (low ! (random_state st 0 mod length low))) \<and>
     sent st' = sent st @ [lifespan_prompt (low ! (random_state st 0 mod length low))] \<and>
     assets_df st' = assets_df st \<and> low_rul_var st' = low_rul_var st \<and>
     random_state st' = (\<lambda>n. random_state st (Suc n)) \<and>
     map blank (shown st') = map blank (shown st) @
       [Styled_Dataframe (map (\<lambda>row. (row, highlight_lifespan row)) low),
        Markdown (ascii ''**GenAI Insight for '' @
          Asset_ID (low ! (random_state st 0 mod length low)) @ ascii ''**''),
        Info []]"
proof -
  let ?sample = "low ! (random_state st 0 mod length low)"
  let ?st2 = "(display (Styled_Dataframe (map (\<lambda>row. (row, highlight_lifespan row)) low)) st)
      \<lparr>random_state := \<lambda>n. random_state st (Suc n), prompt_var := Some (lifespan_prompt ?sample)\<rparr>"
  obtain advisory where adv: "call_advisory cl (lifespan_prompt ?sample) ?st2 =
      Inr (advisory, ?st2\<lparr>sent := sent ?st2 @ [lifespan_prompt ?sample]\<rparr>)"
    using call_advisory_total by blast
  show ?thesis
    using ne low [symmetric] adv
    by (simp add: tabs2_def Let_def sample_1_def next_draw_def display_def)
qed

lemma tabs5_total:
  "\<exists>st'. tabs5 cl note button st = Inr st' \<and> assets_df st' = assets_df st \<and>
     low_rul_var st' = low_rul_var st \<and> random_state st' = random_state st \<and>
     map blank (shown st') = map blank (shown st) @ (if button then [Success []] else [])"
proof (cases button)
  case False
  then show ?thesis by (simp add: tabs5_def)
next
  case True
  let ?st1 = "st\<lparr>prompt_var := Some (report_prompt note)\<rparr>"
  obtain advisory where adv: "call_advisory cl (report_prompt note) ?st1 =
      Inr (advisory, ?st1\<lparr>sent := sent ?st1 @ [report_prompt note]\<rparr>)"
    using call_advisory_total by blast
  show ?thesis using True adv by (simp add: tabs5_def Let_def display_def)
qed

lemma tabs6_total:
  assumes ne: "assets_df st \<noteq> []"
  shows "\<exists>st'. tabs6 cl st = Inr st' \<and> assets_df st' = assets_df st \<and>
     low_rul_var st' = low_rul_var st \<and>
     random_state st' = (\<lambda>n. random_state st (Suc n)) \<and>
     map blank (shown st') = map blank (shown st) @ [Info []]"
proof -
  let ?sample = "assets_df st ! (random_state st 0 mod length (assets_df st))"
  let ?st1 = "st\<lparr>random_state := \<lambda>n. random_state st (Suc n),
      prompt_var := Some (compliance_prompt ?sample)\<rparr>"
  obtain advisory where adv: "call_advisory cl (compliance_prompt ?sample) ?st1 =
      Inr (advisory, ?st1\<lparr>sent := sent ?st1 @ [compliance_prompt ?sample]\<rparr>)"
    using call_advisory_total by blast
  show ?thesis
    using ne adv by (simp add: tabs6_def Let_def sample_1_def next_draw_def display_def)
qed

lemma tabs6_empty: "assets_df st = [] \<Longrightarrow> tabs6 cl st = Inl ValueError"
  by (simp add: tabs6_def sample_1_def)

section \<open>The cost forecast\<close>

lemma get_equipment_cost_draws:
  "snd (get_equipment_cost eq_type g) = (\<lambda>n. g (n + 10))"
proof -
  have "snd (get_equipment_cost eq_type g) =
      (\<lambda>n. g (Suc (Suc (Suc (Suc (Suc (Suc (Suc (Suc (Suc (Suc n)))))))))))"
    by (simp add: get_equipment_cost_def Let_def case_prod_beta randint_def next_draw_def)
  moreover have "Suc (Suc (Suc (Suc (Suc (Suc (Suc (Suc (Suc (Suc n))))))))) = n + 10" for n
    by arith
  ultimately show ?thesis by simp
qed

lemma series_apply_costs:
  "fst (series_apply get_equipment_cost ts g) =
     map (\<lambda>i. fst (get_equipment_cost (ts ! i) (\<lambda>n. g (n + 10 * i)))) [0..<length ts] \<and>
   snd (series_apply get_equipment_cost ts g) = (\<lambda>n. g (n + 10 * length ts))"
proof (induction ts arbitrary: g)
  case Nil
  show ?case by simp
next
  case (Cons t ts)
  let ?g' = "\<lambda>n. g (n + 10)"
  have step: "series_apply get_equipment_cost (t # ts) g =
      (fst (get_equipment_cost t g) # fst (series_apply get_equipment_cost ts ?g'),
       snd (series_apply get_equipment_cost ts ?g'))"
    using get_equipment_cost_draws [of t g] by (simp add: case_prod_beta)
  have shift: "map (\<lambda>i. fst (get_equipment_cost ((t # ts) ! i) (\<lambda>n. g (n + 10 * i)))) [0..<length (t # ts)] =
      fst (get_equipment_cost t g) #
      map (\<lambda>i. fst (get_equipment_cost (ts ! i) (\<lambda>n. g (n + 10 + 10 * i)))) [0..<length ts]"
    by (simp add: upt_conv_Cons map_Suc_upt [symmetric] add.assoc del: upt_Suc)
  show ?case
    unfolding step shift using Cons.IH [of ?g'] by (simp add: add_ac)
qed

lemma series_apply_length: "length (fst (series_apply f xs g)) = length xs"
  by (induction xs arbitrary: g) (simp_all add: case_prod_beta)

lemma cost_column:
  "length costs = length rows \<Longrightarrow>
   map Replacement_Cost (map (\<lambda>(row, cost). asset.extend row
      (cost_row.fields cost (today + RUL_months row * 30))) (zip rows costs)) = costs"
proof (induction rows arbitrary: costs)
  case Nil
  then show ?case by simp
next
  case (Cons row rows)
  then obtain c cs where "costs = c # cs" by (cases costs) simp_all
  then show ?case using Cons by (simp add: asset.defs cost_row.defs)
qed

lemma cost_rows_truncate:
  "length costs = length rows \<Longrightarrow>
   map asset.truncate (map (\<lambda>(row, cost). asset.extend row
      (cost_row.fields cost (today + RUL_months row * 30))) (zip rows costs)) = rows"
proof (induction rows arbitrary: costs)
  case Nil
  then show ?case by simp
next
  case (Cons row rows)
  then obtain c cs where "costs = c # cs" by (cases costs) simp_all
  then show ?case using Cons by (simp add: asset.defs cost_row.defs)
qed

lemma tabs7_empty:
  "filter (\<lambda>row. RUL_months row \<le> 6) (assets_df st) = [] \<Longrightarrow>
   tabs7 cl today st =
     Inr (display (Info (ascii ''No assets nearing end of life.'')) (st\<lparr>low_rul_var := Some []\<rparr>))"
  by (simp add: tabs7_def)

lemma tabs7_nonempty:
  assumes low: "low = filter (\<lambda>row. RUL_months row \<le> 6) (assets_df st)" and ne: "low \<noteq> []"
  shows "\<exists>st' rows. tabs7 cl today st = Inr st' \<and>
     sent st' = sent st @ [cost_prompt (sum_list (map (\<lambda>i.
        fst (get_equipment_cost (Type (low ! i)) (\<lambda>n. random_state st (n + 10 * i))))
        [0..<length low]))] \<and>
     assets_df st' = assets_df st \<and>
     low_rul_var st' = Some rows \<and> map asset.truncate rows = low \<and>
     map Replacement_Cost rows = map (\<lambda>i.
        fst (get_equipment_cost (Type (low ! i)) (\<lambda>n. random_state st (n + 10 * i))))
        [0..<length low] \<and>
     map Replace_By rows = map (\<lambda>row. today + RUL_months row * 30) low \<and>
     random_state st' = (\<lambda>n. random_state st (n + 10 * length low)) \<and>
     map blank (shown st') = map blank (shown st) @
       [Dataframe (map (\<lambda>row. [Text (Asset_ID row), Text (Type row), Text (Location row),
           Number (RUL_months row), Number (Replacement_Cost row), Day (Replace_By row)]) rows),
        Success []]"
proof -
  let ?g = "random_state st"
  let ?costs = "fst (series_apply get_equipment_cost (map Type low) ?g)"
  let ?g' = "snd (series_apply get_equipment_cost (map Type low) ?g)"
  let ?rows = "map (\<lambda>(row, cost). asset.extend row
      (cost_row.fields cost (today + RUL_months row * 30))) (zip low ?costs)"
  have len: "length ?costs = length low" by (simp add: series_apply_length)
  have costs: "?costs = map (\<lambda>i. fst (get_equipment_cost (Type (low ! i))
      (\<lambda>n. ?g (n + 10 * i)))) [0..<length low]"
    using series_apply_costs [of "map Type low" ?g] by (simp cong: map_cong)
  have g': "?g' = (\<lambda>n. ?g (n + 10 * length low))"
    using series_apply_costs [of "map Type low" ?g] by simp
  have col: "map Replacement_Cost ?rows = ?costs" using len by (rule cost_column)
  have trunc: "map asset.truncate ?rows = low" using len by (rule cost_rows_truncate)
  have by_col: "map Replace_By ?rows = map (\<lambda>row. today + RUL_months row * 30) low"
  proof -
    have "map Replace_By (map (\<lambda>(row, cost). asset.extend row
        (cost_row.fields cost (today + RUL_months row * 30))) (zip rows cs)) =
        map (\<lambda>row. today + RUL_months row * 30) rows" if "length cs = length rows" for rows cs
      using that
    proof (induction rows arbitrary: cs)
      case Nil
      then show ?case by simp
    next
      case (Cons row rows)
      then obtain c cs' where "cs = c # cs'" by (cases cs) simp_all
      then show ?case using Cons by (simp add: asset.defs cost_row.defs)
    qed
    then show ?thesis using len by blast
  qed
  let ?prompt = "cost_prompt (sum_list ?costs)"
  let ?st2 = "(display (Dataframe (map (\<lambda>row. [Text (Asset_ID row), Text (Type row),
        Text (Location row), Number (RUL_months row), Number (Replacement_Cost row),
        Day (Replace_By row)]) ?rows)) (st\<lparr>random_state := ?g', low_rul_var := Some ?rows\<rparr>))
      \<lparr>prompt_var := Some ?prompt\<rparr>"
  obtain advisory where adv: "call_advisory cl ?prompt ?st2 =
      Inr (advisory, ?st2\<lparr>sent := sent ?st2 @ [?prompt]\<rparr>)"
    using call_advisory_total by blast
  have run: "tabs7 cl today st = Inr (display (Success advisory) (?st2\<lparr>sent := sent ?st2 @ [?prompt]\<rparr>))"
    using ne low [symmetric] adv col
    by (simp add: tabs7_def Let_def case_prod_beta)
  show ?thesis
    unfolding run
    using col trunc by_col costs g'
    by (simp add: display_def)
qed

lemma tabs8_empty:
  "filter (\<lambda>row. RUL_months row \<le> 3) (assets_df st) = [] \<Longrightarrow>
   tabs8 cl st = Inr (display (Success ([9989] @ ascii '' No urgent work orders required.'')) st)"
  by (simp add: tabs8_def)

lemma tabs8_nonempty:
  assumes crit: "critical = filter (\<lambda>row. RUL_months row \<le> 3) (assets_df st)" and ne: "critical \<noteq> []"
  shows "\<exists>st' advisory. tabs8 cl st = Inr st' \<and>
     genai_advisory (chat_create cl (length (sent st))) (DEPLOYMENT_NAME cl)
       (work_order_prompt (critical ! (random_state st 0 mod length critical))) = Inr advisory \<and>
     shown st' = shown st @
       [Dataframe (map (\<lambda>row. [Text (Asset_ID row), Text (Type row), Text (Location row),
          Text (Status row), Number (RUL_months row)]) critical),
        show_work_order advisory] \<and>
     sent st' = sent st @ [work_order_prompt (critical ! (random_state st 0 mod length critical))] \<and>
     assets_df st' = assets_df st \<and> low_rul_var st' = low_rul_var st"
proof -
  let ?sample = "critical ! (random_state st 0 mod length critical)"
  let ?st2 = "(display (Dataframe (map (\<lambda>row. [Text (Asset_ID row), Text (Type row),
        Text (Location row), Text (Status row), Number (RUL_months row)]) critical)) st)
      \<lparr>random_state := \<lambda>n. random_state st (Suc n), prompt_var := Some (work_order_prompt ?sample)\<rparr>"
  obtain advisory where adv: "call_advisory cl (work_order_prompt ?sample) ?st2 =
      Inr (advisory, ?st2\<lparr>sent := sent ?st2 @ [work_order_prompt ?sample]\<rparr>)"
    and gen: "genai_advisory (chat_create cl (length (sent ?st2))) (DEPLOYMENT_NAME cl)
       (work_order_prompt ?sample) = Inr advisory"
    using call_advisory_total by blast
  have run: "tabs8 cl st = Inr (display (show_work_order advisory)
      (?st2\<lparr>sent := sent ?st2 @ [work_order_prompt ?sample]\<rparr>))"
    using ne crit [symmetric] adv
    by (simp add: tabs8_def Let_def sample_1_def next_draw_def display_def)
  show ?thesis
    unfolding run using gen by (simp add: display_def)
qed

lemma tabs1_frame: "tabs1 st = Inr st' \<Longrightarrow> assets_df st' = assets_df st"
  by (auto simp add: tabs1_def display_def)

lemma tabs2_frame: "tabs2 cl st = Inr st' \<Longrightarrow> assets_df st' = assets_df st"
proof (cases "filter (\<lambda>row. RUL_months row \<le> 6) (assets_df st) = []")
  case True
  assume "tabs2 cl st = Inr st'"
  then show ?thesis using tabs2_empty [OF True, of cl] by (auto simp add: display_def)
next
  case False
  assume "tabs2 cl st = Inr st'"
  then show ?thesis using tabs2_nonempty [OF refl False, of cl] by auto
qed

lemma tabs3_frame: "tabs3 cl st = Inr st' \<Longrightarrow> assets_df st' = assets_df st"
  using corrosion_loop_frame [of cl "top5_by Corrosion_Level (assets_df st)"
    "display (Pyplot (map (\<lambda>row. (Asset_ID row, Corrosion_Level row))
      (top5_by Corrosion_Level (assets_df st)))) st" st']
  by (simp add: tabs3_def Let_def display_def)

lemma tabs4_frame: "tabs4 cl st = Inr st' \<Longrightarrow> assets_df st' = assets_df st"
  using failure_loop_frame [of cl "top5_by Degradation_pct (assets_df st)" st st']
  by (simp add: tabs4_def)

lemma tabs5_frame: "tabs5 cl note button st = Inr st' \<Longrightarrow> assets_df st' = assets_df st"
  using tabs5_total [of cl "note" button st] by auto

lemma tabs6_frame: "tabs6 cl st = Inr st' \<Longrightarrow> assets_df st' = assets_df st"
proof (cases "assets_df st = []")
  case True
  assume "tabs6 cl st = Inr st'"
  then show ?thesis using tabs6_empty [OF True, of cl] by simp
next
  case False
  assume "tabs6 cl st = Inr st'"
  then show ?thesis using tabs6_total [OF False, of cl] by auto
qed

lemma tabs7_frame: "tabs7 cl today st = Inr st' \<Longrightarrow> assets_df st' = assets_df st"
proof (cases "filter (\<lambda>row. RUL_months row \<le> 6) (assets_df st) = []")
  case True
  assume "tabs7 cl today st = Inr st'"
  then show ?thesis using tabs7_empty [OF True, of cl today] by (auto simp add: display_def)
next
  case False
  assume "tabs7 cl today st = Inr st'"
  then show ?thesis using tabs7_nonempty [OF refl False, of cl today] by auto
qed

lemma tabs8_frame: "tabs8 cl st = Inr st' \<Longrightarrow> assets_df st' = assets_df st"
proof (cases "filter (\<lambda>row. RUL_months row \<le> 3) (assets_df st) = []")
  case True
  assume "tabs8 cl st = Inr st'"
  then show ?thesis using tabs8_empty [OF True, of cl] by (auto simp add: display_def)
next
  case False
  assume "tabs8 cl st = Inr st'"
  then show ?thesis using tabs8_nonempty [OF refl False, of cl] by auto
qed

lemma and_then_Inr: "and_then r f = Inr y \<Longrightarrow> \<exists>x. r = Inr x \<and> f x = Inr y"
  by (cases r) (simp_all add: and_then_def)

lemma initial_state_fields:
  "assets_df (initial_state today g) = fst (generate_assets today g)"
  "prompt_var (initial_state today g) = None"
  "low_rul_var (initial_state today g) = None"
  "random_state (initial_state today g) = snd (generate_assets today g)"
  "sent (initial_state today g) = []"
  "shown (initial_state today g) = []"
  by (simp_all add: initial_state_def case_prod_beta)

lemma script_frame:
  assumes "script cl note button today g = Inr st'"
  shows "assets_df st' = fst (generate_assets today g)"
proof -
  obtain s7 where s7: "tabs8 cl s7 = Inr st'" and r7: "and_then (and_then (and_then (and_then
      (and_then (and_then (tabs1 (initial_state today g)) (tabs2 cl)) (tabs3 cl)) (tabs4 cl))
      (tabs5 cl note button)) (tabs6 cl)) (tabs7 cl today) = Inr s7"
    using assms unfolding script_def by (blast dest: and_then_Inr)
  obtain s6 where s6: "tabs7 cl today s6 = Inr s7" and r6: "and_then (and_then (and_then
      (and_then (and_then (tabs1 (initial_state today g)) (tabs2 cl)) (tabs3 cl)) (tabs4 cl))
      (tabs5 cl note button)) (tabs6 cl) = Inr s6"
    using r7 by (blast dest: and_then_Inr)
  obtain s5 where s5: "tabs6 cl s5 = Inr s6" and r5: "and_then (and_then
      (and_then (and_then (tabs1 (initial_state today g)) (tabs2 cl)) (tabs3 cl)) (tabs4 cl))
      (tabs5 cl note button) = Inr s5"
    using r6 by (blast dest: and_then_Inr)
  obtain s4 where s4: "tabs5 cl note button s4 = Inr s5" and r4: "and_then
      (and_then (and_then (tabs1 (initial_state today g)) (tabs2 cl)) (tabs3 cl)) (tabs4 cl) = Inr s4"
    using r5 by (blast dest: and_then_Inr)
  obtain s3 where s3: "tabs4 cl s3 = Inr s4" and r3: "and_then
      (and_then (tabs1 (initial_state today g)) (tabs2 cl)) (tabs3 cl) = Inr s3"
    using r4 by (blast dest: and_then_Inr)
  obtain s2 where s2: "tabs3 cl s2 = Inr s3" and r2: "and_then (tabs1 (initial_state today g)) (tabs2 cl) = Inr s2"
    using r3 by (blast dest: and_then_Inr)
  obtain s1 where s1: "tabs2 cl s1 = Inr s2" and r1: "tabs1 (initial_state today g) = Inr s1"
    using r2 by (blast dest: and_then_Inr)
  show ?thesis
    using tabs1_frame [OF r1] tabs2_frame [OF s1] tabs3_frame [OF s2] tabs4_frame [OF s3]
      tabs5_frame [OF s4] tabs6_frame [OF s5] tabs7_frame [OF s6] tabs8_frame [OF s7]
    by (simp add: initial_state_fields)
qed

section \<open>Runs of the script\<close>

lemma generate_assets_length: "length (fst (generate_assets today g)) = 140"
proof -
  have "length (map Asset_ID (fst (generate_assets today g))) = 140"
    using for_items_structure [of today equipment_types "[]" 1 g]
    by (simp add: generate_assets_def case_prod_beta equipment_types_def)
  then show ?thesis by simp
qed

lemma script_succeeds:
  assumes low: "filter (\<lambda>row. RUL_months row \<le> 6) (fst (generate_assets today g)) \<noteq> []"
  shows "\<exists>st'. script cl note button today g = Inr st'"
proof -
  let ?T = "fst (generate_assets today g)"
  let ?s0 = "initial_state today g"
  let ?s1 = "display (Styled_Dataframe (map (\<lambda>row. (row, color_row row)) (assets_df ?s0))) ?s0"
  have r1: "tabs1 ?s0 = Inr ?s1" by (simp add: tabs1_def)
  have a1: "assets_df ?s1 = ?T" by (simp add: display_def initial_state_fields)
  obtain s2 p where r2: "tabs2 cl ?s1 = Inr s2" and p2: "prompt_var s2 = Some p"
    and a2: "assets_df s2 = ?T"
    using tabs2_nonempty [OF refl, of ?s1 cl] low a1 by auto
  obtain s3 where r3: "tabs3 cl s2 = Inr s3" and p3: "prompt_var s3 = Some p"
    and a3: "assets_df s3 = ?T"
    using tabs3_bound [OF p2, of cl] a2 by auto
  obtain s4 where r4: "tabs4 cl s3 = Inr s4" and a4: "assets_df s4 = ?T"
    using tabs4_bound [OF p3, of cl] a3 by auto
  obtain s5 where r5: "tabs5 cl note button s4 = Inr s5" and a5: "assets_df s5 = ?T"
    using tabs5_total [of cl "note" button s4] a4 by auto
  have "assets_df s5 \<noteq> []" using a5 generate_assets_length [of today g] by auto
  then obtain s6 where r6: "tabs6 cl s5 = Inr s6" and a6: "assets_df s6 = ?T"
    using tabs6_total [of s5 cl] a5 by auto
  obtain s7 where r7: "tabs7 cl today s6 = Inr s7" and a7: "assets_df s7 = ?T"
    using tabs7_nonempty [OF refl, of s6 cl today] low a6 by auto
  obtain s8 where r8: "tabs8 cl s7 = Inr s8"
  proof (cases "filter (\<lambda>row. RUL_months row \<le> 3) (assets_df s7) = []")
    case True
    then show ?thesis using tabs8_empty [of s7 cl] that by blast
  next
    case False
    then show ?thesis using tabs8_nonempty [OF refl False, of cl] that by blast
  qed
  have "script cl note button today g = Inr s8"
    unfolding script_def
    by (simp add: and_then_def r1 r2 r3 r4 r5 r6 r7 r8)
  then show ?thesis by blast
qed

lemma script_name_error:
  assumes high: "list_all (\<lambda>row. 6 < RUL_months row) (fst (generate_assets today g))"
  shows "tabs2 cl (display (Styled_Dataframe (map (\<lambda>row. (row, color_row row))
            (assets_df (initial_state today g)))) (initial_state today g)) =
          Inr (display (Styled_Dataframe []) (display (Styled_Dataframe
            (map (\<lambda>row. (row, color_row row)) (assets_df (initial_state today g))))
            (initial_state today g)))"
    and "prompt_var st = None \<Longrightarrow> assets_df st = fst (generate_assets today g) \<Longrightarrow>
          tabs3 cl st = Inl NameError \<and> tabs4 cl st = Inl NameError"
    and "script cl note button today g = Inl NameError"
proof -
  let ?T = "fst (generate_assets today g)"
  let ?s0 = "initial_state today g"
  let ?s1 = "display (Styled_Dataframe (map (\<lambda>row. (row, color_row row)) (assets_df ?s0))) ?s0"
  let ?s2 = "display (Styled_Dataframe []) ?s1"
  have r1: "tabs1 ?s0 = Inr ?s1" by (simp add: tabs1_def)
  have low: "filter (\<lambda>row. RUL_months row \<le> 6) ?T = []"
    using high by (simp add: filter_empty_conv list_all_iff) force
  have a1: "assets_df ?s1 = ?T" by (simp add: display_def initial_state_fields)
  show r2: "tabs2 cl ?s1 = Inr ?s2"
    using tabs2_empty [of ?s1 cl] low a1 by simp
  have top_c: "top5_by Corrosion_Level ?T \<noteq> []" and top_d: "top5_by Degradation_pct ?T \<noteq> []"
    using top5_by_length [of Corrosion_Level ?T] top5_by_length [of Degradation_pct ?T]
      generate_assets_length [of today g] by auto
  show panels: "tabs3 cl st = Inl NameError \<and> tabs4 cl st = Inl NameError"
    if "prompt_var st = None" "assets_df st = ?T" for st
    using that top_c top_d
      corrosion_loop_unbound [of "display (Pyplot (map (\<lambda>row. (Asset_ID row, Corrosion_Level row))
        (top5_by Corrosion_Level (assets_df st)))) st" "top5_by Corrosion_Level (assets_df st)" cl]
      failure_loop_unbound [of st "top5_by Degradation_pct (assets_df st)" cl]
    by (simp add: tabs3_def tabs4_def Let_def display_def)
  have "prompt_var ?s2 = None" "assets_df ?s2 = ?T"
    by (simp_all add: display_def initial_state_fields)
  then have r3: "tabs3 cl ?s2 = Inl NameError" using panels by blast
  show "script cl note button today g = Inl NameError"
    unfolding script_def
    by (simp add: and_then_def r1 r2 r3)
qed

section \<open>Tables generated from constant draws\<close>

lemma new_asset_zero:
  "new_asset today i eq (\<lambda>_. 0) =
     (\<lparr>Asset_ID = ascii ''A'' @ format_04d i, Type = eq, Location = ascii ''Zone A'',
       Age_years = 1, Last_Maintenance = today - 30, Degradation_pct = 10,
       Status = ascii ''Operational'', Vibration = 1 / 10, Temperature = 30,
       Corrosion_Level = 0, RUL_months = 1\<rparr>, \<lambda>_. 0)"
  by (simp add: new_asset_def choice_def randint_def uniform_def next_draw_def py_round_def ascii_def)

lemma zero_table:
  "list_all (\<lambda>row. Location row = ascii ''Zone A'' \<and> Age_years row = 1 \<and>
       Degradation_pct row = 10 \<and> Status row = ascii ''Operational'' \<and>
       Vibration row = 1 / 10 \<and> Temperature row = 30 \<and> Corrosion_Level row = 0 \<and>
       RUL_months row = 1)
     (fst (generate_assets today (\<lambda>_. 0))) \<and>
   snd (generate_assets today (\<lambda>_. 0)) = (\<lambda>_. 0)"
  by (rule generate_assets_invariant [of "\<lambda>g. g = (\<lambda>_. 0)"]) (simp_all add: new_asset_zero)

lemma new_asset_const_rng: "snd (new_asset today i eq (\<lambda>_. c)) = (\<lambda>_. c)"
  by (simp add: new_asset_def choice_def randint_def uniform_def next_draw_def Let_def)

lemma const_table_rul:
  "list_all (\<lambda>row. RUL_months row = 1 + int (c mod 36)) (fst (generate_assets today (\<lambda>_. c)))"
  using generate_assets_invariant [of "\<lambda>g. g = (\<lambda>_. c)"
    "\<lambda>row. RUL_months row = 1 + int (c mod 36)" today "\<lambda>_. c"]
  by (simp add: new_asset_const_rul new_asset_const_rng)

lemma generate_assets_ids:
  "map Asset_ID (fst (generate_assets today g)) =
     map (\<lambda>k. ascii ''A'' @ format_04d (1 + int k)) [0..<140]"
  "map Type (fst (generate_assets today g)) =
     replicate 30 (ascii ''Pump'') @ replicate 10 (ascii ''Compressor'') @
     replicate 5 (ascii ''Turbine'') @ replicate 10 (ascii ''Heat Exchanger'') @
     replicate 10 (ascii ''Tank'') @ replicate 5 (ascii ''Vessel'') @
     replicate 15 (ascii ''Pipeline'') @ replicate 10 (ascii ''Motor'') @
     replicate 5 (ascii ''Control Panel'') @ replicate 40 (ascii ''Sensor'')"
  using for_items_structure [of today equipment_types "[]" 1 g]
  by (simp_all add: generate_assets_def case_prod_beta equipment_types_def)

lemma first_ids:
  "map (\<lambda>k. ascii ''A'' @ format_04d (1 + int k)) [0..<5] =
     [ascii ''A0001'', ascii ''A0002'', ascii ''A0003'', ascii ''A0004'', ascii ''A0005'']"
  by code_simp

lemma first_rows:
  "map Asset_ID (take 5 (fst (generate_assets today g))) =
     [ascii ''A0001'', ascii ''A0002'', ascii ''A0003'', ascii ''A0004'', ascii ''A0005'']"
  "map Type (take 5 (fst (generate_assets today g))) = replicate 5 (ascii ''Pump'')"
proof -
  have "map Asset_ID (take 5 (fst (generate_assets today g))) =
      take 5 (map (\<lambda>k. ascii ''A'' @ format_04d (1 + int k)) [0..<140])"
    by (simp only: take_map [symmetric] generate_assets_ids)
  also have "\<dots> = map (\<lambda>k. ascii ''A'' @ format_04d (1 + int k)) [0..<5]"
    by (simp add: take_map del: upt_Suc)
  finally show "map Asset_ID (take 5 (fst (generate_assets today g))) =
     [ascii ''A0001'', ascii ''A0002'', ascii ''A0003'', ascii ''A0004'', ascii ''A0005'']"
    by (simp only: first_ids)
  have "map Type (take 5 (fst (generate_assets today g))) =
      take 5 (replicate 30 (ascii ''Pump'') @ replicate 10 (ascii ''Compressor'') @
     replicate 5 (ascii ''Turbine'') @ replicate 10 (ascii ''Heat Exchanger'') @
     replicate 10 (ascii ''Tank'') @ replicate 5 (ascii ''Vessel'') @
     replicate 15 (ascii ''Pipeline'') @ replicate 10 (ascii ''Motor'') @
     replicate 5 (ascii ''Control Panel'') @ replicate 40 (ascii ''Sensor''))"
    by (simp only: take_map [symmetric] generate_assets_ids)
  then show "map Type (take 5 (fst (generate_assets today g))) = replicate 5 (ascii ''Pump'')"
    by simp
qed

lemma top5_by_const:
  assumes "list_all (\<lambda>row. column row = k) df"
  shows "top5_by column df = take 5 df"
proof -
  have "map (\<lambda>row. - column row) df = replicate (length df) (- k)"
    using assms by (simp add: list_all_iff map_replicate_const [symmetric])
  then have "sorted (map (\<lambda>row. - column row) df)" by simp
  then have "sort_key (\<lambda>row. - column row) df = df" by (rule sort_key_id_if_sorted)
  then show ?thesis by (simp add: top5_by_def)
qed

section \<open>The unbound prompt\<close>

text \<open>
  Claim C10. When no asset of the generated table has a RUL of at most 6, the lifespan
  panel leaves the variable \<open>prompt\<close> unbound and sends nothing; from that state the
  corrosion panel and the failure-mode panel each raise \<open>NameError\<close> instead of
  producing an advisory, and the run of the script ends with that \<open>NameError\<close>. The
  first read of \<open>prompt\<close> in a loop raises, so no later iteration is reached.
\<close>

theorem unbound_prompt_name_error:
  "list_all (\<lambda>row. 6 < RUL_months row) (fst (generate_assets today g)) \<Longrightarrow>
   \<exists>st1 st2. tabs1 (initial_state today g) = Inr st1 \<and> tabs2 cl st1 = Inr st2 \<and>
     prompt_var st2 = None \<and> sent st2 = [] \<and>
     tabs3 cl st2 = Inl NameError \<and> tabs4 cl st2 = Inl NameError \<and>
     script cl note button today g = Inl NameError"
proof -
  assume high: "list_all (\<lambda>row. 6 < RUL_months row) (fst (generate_assets today g))"
  let ?s0 = "initial_state today g"
  let ?s1 = "display (Styled_Dataframe (map (\<lambda>row. (row, color_row row)) (assets_df ?s0))) ?s0"
  let ?s2 = "display (Styled_Dataframe []) ?s1"
  have r1: "tabs1 ?s0 = Inr ?s1" by (simp add: tabs1_def)
  have r2: "tabs2 cl ?s1 = Inr ?s2" using script_name_error(1) [OF high] .
  have f2: "prompt_var ?s2 = None" "sent ?s2 = []" "assets_df ?s2 = fst (generate_assets today g)"
    by (simp_all add: display_def initial_state_fields)
  have r3: "tabs3 cl ?s2 = Inl NameError \<and> tabs4 cl ?s2 = Inl NameError"
    using script_name_error(2) [OF high f2(1) f2(3)] .
  have r: "script cl note button today g = Inl NameError"
    using script_name_error(3) [OF high] .
  show ?thesis using r1 r2 f2 r3 r by blast
qed

theorem unbound_prompt_name_error_witness:
  "list_all (\<lambda>row. 6 < RUL_months row) (fst (generate_assets 0 (\<lambda>_. 10))) \<and>
   script \<lparr>chat_create = \<lambda>k model messages. Inr (Response [Some (ascii ''ok'')]),
           DEPLOYMENT_NAME = None\<rparr> [] False 0 (\<lambda>_. 10) = Inl NameError"
proof -
  have "list_all (\<lambda>row. RUL_months row = 1 + int (10 mod 36)) (fst (generate_assets 0 (\<lambda>_. 10)))"
    by (rule const_table_rul)
  then have high: "list_all (\<lambda>row. 6 < RUL_months row) (fst (generate_assets 0 (\<lambda>_. 10)))"
    by (simp add: list_all_iff)
  show ?thesis
    using high unbound_prompt_name_error [OF high] by blast
qed

section \<open>The total of the cost forecast\<close>

text \<open>
  Claim C7. When some asset has a RUL of at most 6, the cost panel sends one prompt,
  and the amount written into it after the dollar sign is the sum, over the rows of
  the filtered table in order, of \<open>get_equipment_cost\<close> applied to the type of the row;
  the call for row \<open>i\<close> draws from the random source where the \<open>i\<close> calls before it,
  of ten draws each, have left it. This holds for every table and every random source.
\<close>

theorem cost_forecast_total:
  "filter (\<lambda>row. RUL_months row \<le> 6) (assets_df st) \<noteq> [] \<Longrightarrow>
   \<exists>st'. tabs7 cl today st = Inr st' \<and>
     sent st' = sent st @
       [ascii ''In the next 6 months, assets totaling $'' @
        str_int (sum_list (map (\<lambda>i. fst (get_equipment_cost
           (Type (filter (\<lambda>row. RUL_months row \<le> 6) (assets_df st) ! i))
           (\<lambda>n. random_state st (n + 10 * i))))
           [0..<length (filter (\<lambda>row. RUL_months row \<le> 6) (assets_df st))])) @
        ascii '' are due for replacement. Provide a capital planning summary.'']"
proof -
  assume ne: "filter (\<lambda>row. RUL_months row \<le> 6) (assets_df st) \<noteq> []"
  show ?thesis
    using tabs7_nonempty [OF refl ne, of cl today] by (auto simp add: cost_prompt_def)
qed

lemma zero_costs:
  "fst (get_equipment_cost (ascii ''Pump'') (\<lambda>_. 0)) = 5000"
  "fst (get_equipment_cost (ascii ''Compressor'') (\<lambda>_. 0)) = 20000"
  "fst (get_equipment_cost (ascii ''Turbine'') (\<lambda>_. 0)) = 40000"
  "fst (get_equipment_cost (ascii ''Heat Exchanger'') (\<lambda>_. 0)) = 10000"
  "fst (get_equipment_cost (ascii ''Tank'') (\<lambda>_. 0)) = 15000"
  "fst (get_equipment_cost (ascii ''Vessel'') (\<lambda>_. 0)) = 12000"
  "fst (get_equipment_cost (ascii ''Pipeline'') (\<lambda>_. 0)) = 10000"
  "fst (get_equipment_cost (ascii ''Motor'') (\<lambda>_. 0)) = 8000"
  "fst (get_equipment_cost (ascii ''Control Panel'') (\<lambda>_. 0)) = 5000"
  "fst (get_equipment_cost (ascii ''Sensor'') (\<lambda>_. 0)) = 500"
  by (simp_all add: get_equipment_cost_def Let_def case_prod_beta randint_def next_draw_def ascii_def)

lemma zero_table_low:
  "filter (\<lambda>row. RUL_months row \<le> 6) (fst (generate_assets today (\<lambda>_. 0))) =
     fst (generate_assets today (\<lambda>_. 0))"
  "filter (\<lambda>row. RUL_months row \<le> 3) (fst (generate_assets today (\<lambda>_. 0))) =
     fst (generate_assets today (\<lambda>_. 0))"
  "fst (generate_assets today (\<lambda>_. 0)) \<noteq> []"
proof -
  have rul: "list_all (\<lambda>row. RUL_months row = 1) (fst (generate_assets today (\<lambda>_. 0)))"
    using const_table_rul [of 0 today] by simp
  show "filter (\<lambda>row. RUL_months row \<le> 6) (fst (generate_assets today (\<lambda>_. 0))) =
     fst (generate_assets today (\<lambda>_. 0))"
    using rul by (simp add: filter_id_conv list_all_iff)
  show "filter (\<lambda>row. RUL_months row \<le> 3) (fst (generate_assets today (\<lambda>_. 0))) =
     fst (generate_assets today (\<lambda>_. 0))"
    using rul by (simp add: filter_id_conv list_all_iff)
  have "length (fst (generate_assets today (\<lambda>_. 0))) = 140" by (rule generate_assets_length)
  then show "fst (generate_assets today (\<lambda>_. 0)) \<noteq> []" by auto
qed

lemma zero_total:
  "sum_list (map (\<lambda>i. fst (get_equipment_cost (Type (fst (generate_assets today (\<lambda>_. 0)) ! i)) (\<lambda>_. 0)))
     [0..<length (fst (generate_assets today (\<lambda>_. 0)))]) = 1135000"
proof -
  let ?T = "fst (generate_assets today (\<lambda>_. 0))"
  have "map (\<lambda>i. fst (get_equipment_cost (Type (?T ! i)) (\<lambda>_. 0))) [0..<length ?T] =
      map (\<lambda>t. fst (get_equipment_cost t (\<lambda>_. 0))) (map Type ?T)"
    by (rule nth_equalityI) simp_all
  then show ?thesis
    by (simp only: generate_assets_ids) (simp add: zero_costs sum_list_replicate)
qed

lemma str_int_total: "str_int 1135000 = ascii ''1135000''"
  by (simp add: str_int_def digits10.simps ascii_def)

theorem cost_forecast_total_witness:
  "filter (\<lambda>row. RUL_months row \<le> 6) (assets_df (initial_state 0 (\<lambda>_. 0))) \<noteq> [] \<and>
   (\<exists>st'. tabs7 \<lparr>chat_create = \<lambda>k model messages. Inr (Response [Some (ascii ''ok'')]),
                  DEPLOYMENT_NAME = None\<rparr> 0 (initial_state 0 (\<lambda>_. 0)) = Inr st' \<and>
      sent st' = [ascii ''In the next 6 months, assets totaling $1135000 are due for replacement. Provide a capital planning summary.''])"
proof -
  let ?st = "initial_state 0 (\<lambda>_. 0)"
  have T: "assets_df ?st = fst (generate_assets 0 (\<lambda>_. 0))" by (simp add: initial_state_fields)
  have g: "random_state ?st = (\<lambda>_. 0)" using zero_table [of 0] by (simp add: initial_state_fields)
  have ne: "filter (\<lambda>row. RUL_months row \<le> 6) (assets_df ?st) \<noteq> []"
    by (simp add: T zero_table_low)
  obtain st' where run: "tabs7 \<lparr>chat_create = \<lambda>k model messages.
        Inr (Response [Some (ascii ''ok'')]), DEPLOYMENT_NAME = None\<rparr> 0 ?st = Inr st'"
    and s: "sent st' = sent ?st @
       [ascii ''In the next 6 months, assets totaling $'' @
        str_int (sum_list (map (\<lambda>i. fst (get_equipment_cost
           (Type (filter (\<lambda>row. RUL_months row \<le> 6) (assets_df ?st) ! i))
           (\<lambda>n. random_state ?st (n + 10 * i))))
           [0..<length (filter (\<lambda>row. RUL_months row \<le> 6) (assets_df ?st))])) @
        ascii '' are due for replacement. Provide a capital planning summary.'']"
    using cost_forecast_total [OF ne] by blast
  have total: "sum_list (map (\<lambda>i. fst (get_equipment_cost
           (Type (filter (\<lambda>row. RUL_months row \<le> 6) (assets_df ?st) ! i))
           (\<lambda>n. random_state ?st (n + 10 * i))))
           [0..<length (filter (\<lambda>row. RUL_months row \<le> 6) (assets_df ?st))]) = 1135000"
    by (simp only: T g zero_table_low zero_total)
  have "sent st' = [ascii ''In the next 6 months, assets totaling $1135000 are due for replacement. Provide a capital planning summary.'']"
    unfolding s total str_int_total by (simp add: initial_state_fields ascii_def)
  then show ?thesis using ne run by blast
qed

section \<open>The prompt of the corrosion and failure-mode panels\<close>

lemma zero_row_prompt:
  assumes "Asset_ID row = ascii ''A0001''" "Type row = ascii ''Pump''" "Age_years row = 1"
    "Degradation_pct row = 10" "Vibration row = 1 / 10" "Temperature row = 30"
    "Corrosion_Level row = 0" "RUL_months row = 1"
  shows "lifespan_prompt row =
     ascii ''Asset ID: A0001'' @ [10] @ ascii ''Type: Pump'' @ [10] @
     ascii ''Age: 1 years'' @ [10] @ ascii ''Degradation: 10.0%'' @ [10] @
     ascii ''Vibration: 0.1'' @ [10] @ ascii ''Temperature: 30.0 deg C'' @ [10] @
     ascii ''Corrosion Level: 0.0'' @ [10] @ ascii ''RUL: 1 months'' @ [10] @
     ascii ''Explain why this asset'' @ [39] @ ascii ''s RUL is low and suggest next steps.''"
  by (simp add: lifespan_prompt_def assms str_int_def str_float_def digits10.simps ascii_def)

lemma lifespan_prompt_start:
  "length (Asset_ID row) = 5 \<Longrightarrow> take 15 (lifespan_prompt row) = ascii ''Asset ID: '' @ Asset_ID row"
  by (simp add: lifespan_prompt_def ascii_def)

lemma zero_table_first:
  "Asset_ID (fst (generate_assets today (\<lambda>_. 0)) ! 0) = ascii ''A0001''"
  "Type (fst (generate_assets today (\<lambda>_. 0)) ! 0) = ascii ''Pump''"
  "Age_years (fst (generate_assets today (\<lambda>_. 0)) ! 0) = 1"
  "Degradation_pct (fst (generate_assets today (\<lambda>_. 0)) ! 0) = 10"
  "Vibration (fst (generate_assets today (\<lambda>_. 0)) ! 0) = 1 / 10"
  "Temperature (fst (generate_assets today (\<lambda>_. 0)) ! 0) = 30"
  "Corrosion_Level (fst (generate_assets today (\<lambda>_. 0)) ! 0) = 0"
  "RUL_months (fst (generate_assets today (\<lambda>_. 0)) ! 0) = 1"
proof -
  let ?T = "fst (generate_assets today (\<lambda>_. 0))"
  have len: "length ?T = 140" by (rule generate_assets_length)
  then have mem: "?T ! 0 \<in> set ?T" by simp
  have "map Asset_ID (take 5 ?T) ! 0 = ascii ''A0001''" "map Type (take 5 ?T) ! 0 = ascii ''Pump''"
    by (simp_all only: first_rows) simp_all
  then show "Asset_ID (?T ! 0) = ascii ''A0001''" "Type (?T ! 0) = ascii ''Pump''"
    using len by simp_all
  show "Age_years (?T ! 0) = 1" "Degradation_pct (?T ! 0) = 10" "Vibration (?T ! 0) = 1 / 10"
    "Temperature (?T ! 0) = 30" "Corrosion_Level (?T ! 0) = 0" "RUL_months (?T ! 0) = 1"
    using zero_table [of today] mem by (auto simp add: list_all_iff)
qed

text \<open>
  Claim C3, as the code has it. The loops of the corrosion panel and of the
  failure-mode panel pass the variable \<open>prompt\<close> to \<open>genai_advisory\<close>, not a prompt built
  from the row of the iteration: when \<open>prompt\<close> is bound to \<open>p\<close>, every call of both
  loops sends \<open>p\<close>, whatever the rows are.
\<close>

theorem stale_prompt_reused:
  "prompt_var st = Some p \<Longrightarrow>
   \<exists>st3 st4. tabs3 cl st = Inr st3 \<and>
     sent st3 = sent st @ replicate (length (top5_by Corrosion_Level (assets_df st))) p \<and>
     tabs4 cl st3 = Inr st4 \<and>
     sent st4 = sent st3 @ replicate (length (top5_by Degradation_pct (assets_df st))) p"
proof -
  assume p: "prompt_var st = Some p"
  obtain st3 where r3: "tabs3 cl st = Inr st3"
    and s3: "sent st3 = sent st @ replicate (length (top5_by Corrosion_Level (assets_df st))) p"
    and a3: "assets_df st3 = assets_df st" and p3: "prompt_var st3 = Some p"
    using tabs3_bound [OF p, of cl] by blast
  obtain st4 where r4: "tabs4 cl st3 = Inr st4"
    and s4: "sent st4 = sent st3 @ replicate (length (top5_by Degradation_pct (assets_df st3))) p"
    using tabs4_bound [OF p3, of cl] by blast
  show ?thesis using r3 s3 r4 s4 a3 by auto
qed

theorem stale_prompt_reused_witness:
  "\<exists>st1 st2 st3 st4.
     tabs1 (initial_state 0 (\<lambda>_. 0)) = Inr st1 \<and>
     tabs2 \<lparr>chat_create = \<lambda>k model messages. Inr (Response [Some (ascii ''ok'')]),
            DEPLOYMENT_NAME = None\<rparr> st1 = Inr st2 \<and>
     tabs3 \<lparr>chat_create = \<lambda>k model messages. Inr (Response [Some (ascii ''ok'')]),
            DEPLOYMENT_NAME = None\<rparr> st2 = Inr st3 \<and>
     tabs4 \<lparr>chat_create = \<lambda>k model messages. Inr (Response [Some (ascii ''ok'')]),
            DEPLOYMENT_NAME = None\<rparr> st3 = Inr st4 \<and>
     map Asset_ID (top5_by Corrosion_Level (assets_df st2)) =
       [ascii ''A0001'', ascii ''A0002'', ascii ''A0003'', ascii ''A0004'', ascii ''A0005''] \<and>
     map Asset_ID (top5_by Degradation_pct (assets_df st3)) =
       [ascii ''A0001'', ascii ''A0002'', ascii ''A0003'', ascii ''A0004'', ascii ''A0005''] \<and>
     map (\<lambda>row. take 15 (lifespan_prompt row)) (top5_by Corrosion_Level (assets_df st2)) =
       [ascii ''Asset ID: A0001'', ascii ''Asset ID: A0002'', ascii ''Asset ID: A0003'',
        ascii ''Asset ID: A0004'', ascii ''Asset ID: A0005''] \<and>
     sent st4 = replicate 11
       (ascii ''Asset ID: A0001'' @ [10] @ ascii ''Type: Pump'' @ [10] @
        ascii ''Age: 1 years'' @ [10] @ ascii ''Degradation: 10.0%'' @ [10] @
        ascii ''Vibration: 0.1'' @ [10] @ ascii ''Temperature: 30.0 deg C'' @ [10] @
        ascii ''Corrosion Level: 0.0'' @ [10] @ ascii ''RUL: 1 months'' @ [10] @
        ascii ''Explain why this asset'' @ [39] @ ascii ''s RUL is low and suggest next steps.'')"
proof -
  let ?cl = "\<lparr>chat_create = \<lambda>k model messages. Inr (Response [Some (ascii ''ok'')]),
            DEPLOYMENT_NAME = None\<rparr>"
  let ?T = "fst (generate_assets 0 (\<lambda>_. 0))"
  let ?p = "ascii ''Asset ID: A0001'' @ [10] @ ascii ''Type: Pump'' @ [10] @
        ascii ''Age: 1 years'' @ [10] @ ascii ''Degradation: 10.0%'' @ [10] @
        ascii ''Vibration: 0.1'' @ [10] @ ascii ''Temperature: 30.0 deg C'' @ [10] @
        ascii ''Corrosion Level: 0.0'' @ [10] @ ascii ''RUL: 1 months'' @ [10] @
        ascii ''Explain why this asset'' @ [39] @ ascii ''s RUL is low and suggest next steps.''"
  let ?s0 = "initial_state 0 (\<lambda>_. 0)"
  let ?s1 = "display (Styled_Dataframe (map (\<lambda>row. (row, color_row row)) (assets_df ?s0))) ?s0"
  have r1: "tabs1 ?s0 = Inr ?s1" by (simp add: tabs1_def)
  have f1: "assets_df ?s1 = ?T" "sent ?s1 = []" "random_state ?s1 = (\<lambda>_. 0)"
    using zero_table [of 0] by (simp_all add: display_def initial_state_fields)
  have low: "filter (\<lambda>row. RUL_months row \<le> 6) (assets_df ?s1) = ?T"
    by (simp only: f1 zero_table_low)
  have p1: "lifespan_prompt (?T ! 0) = ?p"
    by (rule zero_row_prompt) (rule zero_table_first)+
  have ne: "?T \<noteq> []" by (rule zero_table_low)
  obtain st2 where r2: "tabs2 ?cl ?s1 = Inr st2"
    and p2': "prompt_var st2 = Some (lifespan_prompt (?T ! (random_state ?s1 0 mod length ?T)))"
    and s2': "sent st2 = sent ?s1 @ [lifespan_prompt (?T ! (random_state ?s1 0 mod length ?T))]"
    and a2': "assets_df st2 = assets_df ?s1"
    using tabs2_nonempty [of ?T ?s1 ?cl, OF low [symmetric] ne] by blast
  have p2: "prompt_var st2 = Some ?p" using p2' by (simp only: f1 mod_0 p1)
  have s2: "sent st2 = [?p]" using s2' by (simp only: f1 mod_0 p1 append_Nil)
  have a2: "assets_df st2 = ?T" using a2' by (simp only: f1)
  obtain st3 st4 where r3: "tabs3 ?cl st2 = Inr st3"
    and s3: "sent st3 = sent st2 @ replicate (length (top5_by Corrosion_Level (assets_df st2))) ?p"
    and r4: "tabs4 ?cl st3 = Inr st4"
    and s4: "sent st4 = sent st3 @ replicate (length (top5_by Degradation_pct (assets_df st2))) ?p"
    using stale_prompt_reused [OF p2, of ?cl] by blast
  have a3: "assets_df st3 = ?T" using tabs3_frame [OF r3] a2 by simp
  have top_c: "top5_by Corrosion_Level ?T = take 5 ?T"
    using zero_table [of 0] by (intro top5_by_const [of _ 0]) (simp add: list_all_iff)
  have top_d: "top5_by Degradation_pct ?T = take 5 ?T"
    using zero_table [of 0] by (intro top5_by_const [of _ 10]) (simp add: list_all_iff)
  have ids: "map Asset_ID (take 5 ?T) =
      [ascii ''A0001'', ascii ''A0002'', ascii ''A0003'', ascii ''A0004'', ascii ''A0005'']"
    by (rule first_rows)
  have len5: "length (take 5 ?T) = 5" by (simp add: generate_assets_length)
  have width: "length (Asset_ID row) = 5" if "row \<in> set (take 5 ?T)" for row
  proof -
    have "Asset_ID row \<in> set (map Asset_ID (take 5 ?T))" using that by simp
    then show ?thesis unfolding ids by (auto simp add: ascii_def)
  qed
  have "map (\<lambda>row. take 15 (lifespan_prompt row)) (take 5 ?T) =
      map (\<lambda>row. ascii ''Asset ID: '' @ Asset_ID row) (take 5 ?T)"
    by (rule map_cong [OF refl]) (simp add: lifespan_prompt_start width)
  also have "\<dots> = map (\<lambda>i. ascii ''Asset ID: '' @ i) (map Asset_ID (take 5 ?T))"
    by (simp add: comp_def)
  also have "\<dots> = [ascii ''Asset ID: A0001'', ascii ''Asset ID: A0002'', ascii ''Asset ID: A0003'',
        ascii ''Asset ID: A0004'', ascii ''Asset ID: A0005'']"
    unfolding ids by (simp add: ascii_def)
  finally have starts: "map (\<lambda>row. take 15 (lifespan_prompt row)) (take 5 ?T) =
      [ascii ''Asset ID: A0001'', ascii ''Asset ID: A0002'', ascii ''Asset ID: A0003'',
        ascii ''Asset ID: A0004'', ascii ''Asset ID: A0005'']" .
  have s4': "sent st4 = replicate 11 ?p"
    unfolding s4 s3 s2 a2 top_c top_d len5 by (simp add: numeral_eq_Suc)
  show ?thesis
    using r1 r2 r3 r4 ids starts s4' unfolding a2 a3 top_c top_d
    by (intro exI [of _ ?s1] exI [of _ st2] exI [of _ st3] exI [of _ st4])
       (simp only: a2 a3 top_c top_d simp_thms)
qed

section \<open>What each panel does with its advisories\<close>

lemma tabs2_result:
  assumes low: "low = filter (\<lambda>row. RUL_months row \<le> 6) (assets_df st)" and ne: "low \<noteq> []"
    and sample: "sample = low ! (random_state st 0 mod length low)"
  shows "\<exists>advisory.
     genai_advisory (chat_create cl (length (sent st))) (DEPLOYMENT_NAME cl)
       (lifespan_prompt sample) = Inr advisory \<and>
     tabs2 cl st = Inr (st\<lparr>prompt_var := Some (lifespan_prompt sample),
       random_state := \<lambda>n. random_state st (Suc n),
       sent := sent st @ [lifespan_prompt sample],
       shown := shown st @
         [Styled_Dataframe (map (\<lambda>row. (row, highlight_lifespan row)) low),
          Markdown (ascii ''**GenAI Insight for '' @ Asset_ID sample @ ascii ''**''),
          Info advisory]\<rparr>)"
proof -
  let ?st2 = "(display (Styled_Dataframe (map (\<lambda>row. (row, highlight_lifespan row)) low)) st)
      \<lparr>random_state := \<lambda>n. random_state st (Suc n), prompt_var := Some (lifespan_prompt sample)\<rparr>"
  obtain advisory where adv: "call_advisory cl (lifespan_prompt sample) ?st2 =
      Inr (advisory, ?st2\<lparr>sent := sent ?st2 @ [lifespan_prompt sample]\<rparr>)"
    and gen: "genai_advisory (chat_create cl (length (sent ?st2))) (DEPLOYMENT_NAME cl)
       (lifespan_prompt sample) = Inr advisory"
    using call_advisory_total by blast
  have "tabs2 cl st = Inr (display (Info advisory)
      (display (Markdown (ascii ''**GenAI Insight for '' @ Asset_ID sample @ ascii ''**''))
         (?st2\<lparr>sent := sent ?st2 @ [lifespan_prompt sample]\<rparr>)))"
    using ne low [symmetric] sample [symmetric] adv
    by (simp add: tabs2_def Let_def sample_1_def next_draw_def display_def)
  then show ?thesis using gen by (auto simp add: display_def)
qed

lemma corrosion_loop_result:
  "prompt_var st = Some p \<Longrightarrow>
   \<exists>advisories.
     list_all2 (\<lambda>k advisory.
         genai_advisory (chat_create cl k) (DEPLOYMENT_NAME cl) p = Inr advisory)
       [length (sent st)..<length (sent st) + length rows] advisories \<and>
     corrosion_loop cl rows st = Inr (st\<lparr>sent := sent st @ replicate (length rows) p,
       shown := shown st @ concat (map (\<lambda>(row, advisory).
         [Markdown (ascii ''**Corrosion Summary for '' @ Asset_ID row @ ascii ''**''),
          Warning advisory]) (zip rows advisories))\<rparr>)"
proof (induction rows arbitrary: st)
  case Nil
  then show ?case by simp
next
  case (Cons row rows)
  let ?st1 = "display (Markdown (ascii ''**Corrosion Summary for '' @ Asset_ID row @ ascii ''**'')) st"
  obtain a where adv: "call_advisory cl p ?st1 = Inr (a, ?st1\<lparr>sent := sent ?st1 @ [p]\<rparr>)"
    and gen: "genai_advisory (chat_create cl (length (sent ?st1))) (DEPLOYMENT_NAME cl) p = Inr a"
    using call_advisory_total by blast
  let ?st2 = "display (Warning a) (?st1\<lparr>sent := sent ?st1 @ [p]\<rparr>)"
  have p2: "prompt_var ?st2 = Some p" using Cons.prems by (simp add: display_def)
  obtain as where all: "list_all2 (\<lambda>k advisory.
         genai_advisory (chat_create cl k) (DEPLOYMENT_NAME cl) p = Inr advisory)
       [length (sent ?st2)..<length (sent ?st2) + length rows] as"
    and run: "corrosion_loop cl rows ?st2 = Inr (?st2\<lparr>sent := sent ?st2 @ replicate (length rows) p,
       shown := shown ?st2 @ concat (map (\<lambda>(row, advisory).
         [Markdown (ascii ''**Corrosion Summary for '' @ Asset_ID row @ ascii ''**''),
          Warning advisory]) (zip rows as))\<rparr>)"
    using Cons.IH [OF p2] by blast
  have upt: "[length (sent st)..<length (sent st) + length (row # rows)] =
      length (sent st) # [length (sent ?st2)..<length (sent ?st2) + length rows]"
    by (simp add: display_def upt_conv_Cons del: upt_Suc)
  have "list_all2 (\<lambda>k advisory.
         genai_advisory (chat_create cl k) (DEPLOYMENT_NAME cl) p = Inr advisory)
       [length (sent st)..<length (sent st) + length (row # rows)] (a # as)"
    unfolding upt using gen all by (simp add: display_def)
  moreover have "corrosion_loop cl (row # rows) st = Inr (st\<lparr>sent := sent st @ replicate (length (row # rows)) p,
       shown := shown st @ concat (map (\<lambda>(row, advisory).
         [Markdown (ascii ''**Corrosion Summary for '' @ Asset_ID row @ ascii ''**''),
          Warning advisory]) (zip (row # rows) (a # as)))\<rparr>)"
    using Cons.prems adv run by (simp add: read_prompt_def display_def replicate_app_Cons_same)
  ultimately show ?case by blast
qed

lemma failure_loop_result:
  "prompt_var st = Some p \<Longrightarrow>
   \<exists>advisories.
     list_all2 (\<lambda>k advisory.
         genai_advisory (chat_create cl k) (DEPLOYMENT_NAME cl) p = Inr advisory)
       [length (sent st)..<length (sent st) + length rows] advisories \<and>
     failure_loop cl rows st = Inr (st\<lparr>sent := sent st @ replicate (length rows) p,
       shown := shown st @ concat (map (\<lambda>(row, advisory).
         [Markdown (ascii ''**Failure Mode Prediction for '' @ Asset_ID row @ ascii ''**''),
          Error advisory]) (zip rows advisories))\<rparr>)"
proof (induction rows arbitrary: st)
  case Nil
  then show ?case by simp
next
  case (Cons row rows)
  let ?st1 = "display (Markdown (ascii ''**Failure Mode Prediction for '' @ Asset_ID row @ ascii ''**'')) st"
  obtain a where adv: "call_advisory cl p ?st1 = Inr (a, ?st1\<lparr>sent := sent ?st1 @ [p]\<rparr>)"
    and gen: "genai_advisory (chat_create cl (length (sent ?st1))) (DEPLOYMENT_NAME cl) p = Inr a"
    using call_advisory_total by blast
  let ?st2 = "display (Error a) (?st1\<lparr>sent := sent ?st1 @ [p]\<rparr>)"
  have p2: "prompt_var ?st2 = Some p" using Cons.prems by (simp add: display_def)
  obtain as where all: "list_all2 (\<lambda>k advisory.
         genai_advisory (chat_create cl k) (DEPLOYMENT_NAME cl) p = Inr advisory)
       [length (sent ?st2)..<length (sent ?st2) + length rows] as"
    and run: "failure_loop cl rows ?st2 = Inr (?st2\<lparr>sent := sent ?st2 @ replicate (length rows) p,
       shown := shown ?st2 @ concat (map (\<lambda>(row, advisory).
         [Markdown (ascii ''**Failure Mode Prediction for '' @ Asset_ID row @ ascii ''**''),
          Error advisory]) (zip rows as))\<rparr>)"
    using Cons.IH [OF p2] by blast
  have upt: "[length (sent st)..<length (sent st) + length (row # rows)] =
      length (sent st) # [length (sent ?st2)..<length (sent ?st2) + length rows]"
    by (simp add: display_def upt_conv_Cons del: upt_Suc)
  have "list_all2 (\<lambda>k advisory.
         genai_advisory (chat_create cl k) (DEPLOYMENT_NAME cl) p = Inr advisory)
       [length (sent st)..<length (sent st) + length (row # rows)] (a # as)"
    unfolding upt using gen all by (simp add: display_def)
  moreover have "failure_loop cl (row # rows) st = Inr (st\<lparr>sent := sent st @ replicate (length (row # rows)) p,
       shown := shown st @ concat (map (\<lambda>(row, advisory).
         [Markdown (ascii ''**Failure Mode Prediction for '' @ Asset_ID row @ ascii ''**''),
          Error advisory]) (zip (row # rows) (a # as)))\<rparr>)"
    using Cons.prems adv run by (simp add: read_prompt_def display_def replicate_app_Cons_same)
  ultimately show ?case by blast
qed

lemma tabs3_result:
  assumes rows: "rows = top5_by Corrosion_Level (assets_df st)"
  shows "prompt_var st = None \<Longrightarrow>
     tabs3 cl st = (if rows = [] then Inr (st\<lparr>shown := shown st @ [Pyplot []]\<rparr>)
                    else Inl NameError)"
    and "prompt_var st = Some p \<Longrightarrow>
     \<exists>advisories.
       list_all2 (\<lambda>k advisory.
           genai_advisory (chat_create cl k) (DEPLOYMENT_NAME cl) p = Inr advisory)
         [length (sent st)..<length (sent st) + length rows] advisories \<and>
       tabs3 cl st = Inr (st\<lparr>sent := sent st @ replicate (length rows) p,
         shown := shown st @
           Pyplot (map (\<lambda>row. (Asset_ID row, Corrosion_Level row)) rows) #
           concat (map (\<lambda>(row, advisory).
             [Markdown (ascii ''**Corrosion Summary for '' @ Asset_ID row @ ascii ''**''),
              Warning advisory]) (zip rows advisories))\<rparr>)"
proof -
  let ?st1 = "display (Pyplot (map (\<lambda>row. (Asset_ID row, Corrosion_Level row)) rows)) st"
  show "tabs3 cl st = (if rows = [] then Inr (st\<lparr>shown := shown st @ [Pyplot []]\<rparr>)
                    else Inl NameError)" if "prompt_var st = None"
  proof (cases "rows = []")
    case True
    then show ?thesis using rows by (simp add: tabs3_def Let_def display_def)
  next
    case False
    have "prompt_var ?st1 = None" using that by (simp add: display_def)
    then have "corrosion_loop cl rows ?st1 = Inl NameError"
      using False by (rule corrosion_loop_unbound)
    then show ?thesis using False rows by (simp add: tabs3_def Let_def)
  qed
  show "\<exists>advisories.
       list_all2 (\<lambda>k advisory.
           genai_advisory (chat_create cl k) (DEPLOYMENT_NAME cl) p = Inr advisory)
         [length (sent st)..<length (sent st) + length rows] advisories \<and>
       tabs3 cl st = Inr (st\<lparr>sent := sent st @ replicate (length rows) p,
         shown := shown st @
           Pyplot (map (\<lambda>row. (Asset_ID row, Corrosion_Level row)) rows) #
           concat (map (\<lambda>(row, advisory).
             [Markdown (ascii ''**Corrosion Summary for '' @ Asset_ID row @ ascii ''**''),
              Warning advisory]) (zip rows advisories))\<rparr>)" if "prompt_var st = Some p"
  proof -
    have "prompt_var ?st1 = Some p" using that by (simp add: display_def)
    then show ?thesis
      using corrosion_loop_result [of ?st1 p cl rows] rows
      by (auto simp add: tabs3_def Let_def display_def)
  qed
qed

lemma tabs4_result:
  assumes rows: "rows = top5_by Degradation_pct (assets_df st)"
  shows "prompt_var st = None \<Longrightarrow>
     tabs4 cl st = (if rows = [] then Inr st else Inl NameError)"
    and "prompt_var st = Some p \<Longrightarrow>
     \<exists>advisories.
       list_all2 (\<lambda>k advisory.
           genai_advisory (chat_create cl k) (DEPLOYMENT_NAME cl) p = Inr advisory)
         [length (sent st)..<length (sent st) + length rows] advisories \<and>
       tabs4 cl st = Inr (st\<lparr>sent := sent st @ replicate (length rows) p,
         shown := shown st @
           concat (map (\<lambda>(row, advisory).
             [Markdown (ascii ''**Failure Mode Prediction for '' @ Asset_ID row @ ascii ''**''),
              Error advisory]) (zip rows advisories))\<rparr>)"
proof -
  show "tabs4 cl st = (if rows = [] then Inr st else Inl NameError)" if "prompt_var st = None"
  proof (cases "rows = []")
    case True
    then show ?thesis using rows by (simp add: tabs4_def)
  next
    case False
    have "failure_loop cl rows st = Inl NameError"
      using that False by (rule failure_loop_unbound)
    then show ?thesis using False rows by (simp add: tabs4_def)
  qed
  show "\<exists>advisories.
       list_all2 (\<lambda>k advisory.
           genai_advisory (chat_create cl k) (DEPLOYMENT_NAME cl) p = Inr advisory)
         [length (sent st)..<length (sent st) + length rows] advisories \<and>
       tabs4 cl st = Inr (st\<lparr>sent := sent st @ replicate (length rows) p,
         shown := shown st @
           concat (map (\<lambda>(row, advisory).
             [Markdown (ascii ''**Failure Mode Prediction for '' @ Asset_ID row @ ascii ''**''),
              Error advisory]) (zip rows advisories))\<rparr>)" if "prompt_var st = Some p"
    using failure_loop_result [OF that, of cl rows] rows by (simp add: tabs4_def)
qed

lemma tabs5_result:
  "tabs5 cl note False st = Inr st"
  "\<exists>advisory.
     genai_advisory (chat_create cl (length (sent st))) (DEPLOYMENT_NAME cl)
       (report_prompt note) = Inr advisory \<and>
     tabs5 cl note True st = Inr (st\<lparr>prompt_var := Some (report_prompt note),
       sent := sent st @ [report_prompt note],
       shown := shown st @ [Success advisory]\<rparr>)"
proof -
  show "tabs5 cl note False st = Inr st" by (simp add: tabs5_def)
  let ?st1 = "st\<lparr>prompt_var := Some (report_prompt note)\<rparr>"
  obtain advisory where adv: "call_advisory cl (report_prompt note) ?st1 =
      Inr (advisory, ?st1\<lparr>sent := sent ?st1 @ [report_prompt note]\<rparr>)"
    and gen: "genai_advisory (chat_create cl (length (sent ?st1))) (DEPLOYMENT_NAME cl)
       (report_prompt note) = Inr advisory"
    using call_advisory_total by blast
  have "tabs5 cl note True st = Inr (display (Success advisory)
      (?st1\<lparr>sent := sent ?st1 @ [report_prompt note]\<rparr>))"
    using adv by (simp add: tabs5_def Let_def)
  then show "\<exists>advisory.
     genai_advisory (chat_create cl (length (sent st))) (DEPLOYMENT_NAME cl)
       (report_prompt note) = Inr advisory \<and>
     tabs5 cl note True st = Inr (st\<lparr>prompt_var := Some (report_prompt note),
       sent := sent st @ [report_prompt note],
       shown := shown st @ [Success advisory]\<rparr>)"
    using gen by (auto simp add: display_def)
qed

lemma tabs6_result:
  assumes ne: "assets_df st \<noteq> []"
    and sample: "sample = assets_df st ! (random_state st 0 mod length (assets_df st))"
  shows "\<exists>advisory.
     genai_advisory (chat_create cl (length (sent st))) (DEPLOYMENT_NAME cl)
       (compliance_prompt sample) = Inr advisory \<and>
     tabs6 cl st = Inr (st\<lparr>prompt_var := Some (compliance_prompt sample),
       random_state := \<lambda>n. random_state st (Suc n),
       sent := sent st @ [compliance_prompt sample],
       shown := shown st @ [Info advisory]\<rparr>)"
proof -
  let ?st1 = "st\<lparr>random_state := \<lambda>n. random_state st (Suc n),
      prompt_var := Some (compliance_prompt sample)\<rparr>"
  obtain advisory where adv: "call_advisory cl (compliance_prompt sample) ?st1 =
      Inr (advisory, ?st1\<lparr>sent := sent ?st1 @ [compliance_prompt sample]\<rparr>)"
    and gen: "genai_advisory (chat_create cl (length (sent ?st1))) (DEPLOYMENT_NAME cl)
       (compliance_prompt sample) = Inr advisory"
    using call_advisory_total by blast
  have "tabs6 cl st = Inr (display (Info advisory)
      (?st1\<lparr>sent := sent ?st1 @ [compliance_prompt sample]\<rparr>))"
    using ne sample [symmetric] adv
    by (simp add: tabs6_def Let_def sample_1_def next_draw_def)
  then show ?thesis using gen by (auto simp add: display_def)
qed

lemma tabs7_result:
  assumes low: "low = filter (\<lambda>row. RUL_months row \<le> 6) (assets_df st)" and ne: "low \<noteq> []"
    and rows: "rows = map (\<lambda>(row, cost). asset.extend row
        (cost_row.fields cost (today + RUL_months row * 30)))
      (zip low (fst (series_apply get_equipment_cost (map Type low) (random_state st))))"
  shows "\<exists>advisory.
     genai_advisory (chat_create cl (length (sent st))) (DEPLOYMENT_NAME cl)
       (cost_prompt (sum_list (map Replacement_Cost rows))) = Inr advisory \<and>
     tabs7 cl today st = Inr (st\<lparr>prompt_var := Some (cost_prompt (sum_list (map Replacement_Cost rows))),
       low_rul_var := Some rows,
       random_state := snd (series_apply get_equipment_cost (map Type low) (random_state st)),
       sent := sent st @ [cost_prompt (sum_list (map Replacement_Cost rows))],
       shown := shown st @
         [Dataframe (map (\<lambda>row. [Text (Asset_ID row), Text (Type row), Text (Location row),
            Number (RUL_months row), Number (Replacement_Cost row), Day (Replace_By row)]) rows),
          Success advisory]\<rparr>)"
proof -
  let ?rows = "map (\<lambda>(row, cost). asset.extend row
        (cost_row.fields cost (today + RUL_months row * 30)))
      (zip low (fst (series_apply get_equipment_cost (map Type low) (random_state st))))"
  let ?prompt = "cost_prompt (sum_list (map Replacement_Cost ?rows))"
  let ?st2 = "(display (Dataframe (map (\<lambda>row. [Text (Asset_ID row), Text (Type row),
        Text (Location row), Number (RUL_months row), Number (Replacement_Cost row),
        Day (Replace_By row)]) ?rows))
      (st\<lparr>random_state := snd (series_apply get_equipment_cost (map Type low) (random_state st)),
          low_rul_var := Some ?rows\<rparr>))
      \<lparr>prompt_var := Some ?prompt\<rparr>"
  obtain advisory where adv: "call_advisory cl ?prompt ?st2 =
      Inr (advisory, ?st2\<lparr>sent := sent ?st2 @ [?prompt]\<rparr>)"
    and gen: "genai_advisory (chat_create cl (length (sent ?st2))) (DEPLOYMENT_NAME cl) ?prompt =
      Inr advisory"
    using call_advisory_total by blast
  have "tabs7 cl today st = Inr (display (Success advisory) (?st2\<lparr>sent := sent ?st2 @ [?prompt]\<rparr>))"
    using ne low [symmetric] adv
    by (simp add: tabs7_def Let_def case_prod_beta)
  then show ?thesis unfolding rows using gen by (auto simp add: display_def)
qed

lemma tabs8_result:
  assumes crit: "critical = filter (\<lambda>row. RUL_months row \<le> 3) (assets_df st)" and ne: "critical \<noteq> []"
    and sample: "sample = critical ! (random_state st 0 mod length critical)"
  shows "\<exists>advisory.
     genai_advisory (chat_create cl (length (sent st))) (DEPLOYMENT_NAME cl)
       (work_order_prompt sample) = Inr advisory \<and>
     tabs8 cl st = Inr (st\<lparr>prompt_var := Some (work_order_prompt sample),
       random_state := \<lambda>n. random_state st (Suc n),
       sent := sent st @ [work_order_prompt sample],
       shown := shown st @
         [Dataframe (map (\<lambda>row. [Text (Asset_ID row), Text (Type row), Text (Location row),
            Text (Status row), Number (RUL_months row)]) critical),
          if contains [9888, 65039] advisory then Error advisory else Info advisory]\<rparr>)"
proof -
  let ?st2 = "(display (Dataframe (map (\<lambda>row. [Text (Asset_ID row), Text (Type row),
        Text (Location row), Text (Status row), Number (RUL_months row)]) critical)) st)
      \<lparr>random_state := \<lambda>n. random_state st (Suc n), prompt_var := Some (work_order_prompt sample)\<rparr>"
  obtain advisory where adv: "call_advisory cl (work_order_prompt sample) ?st2 =
      Inr (advisory, ?st2\<lparr>sent := sent ?st2 @ [work_order_prompt sample]\<rparr>)"
    and gen: "genai_advisory (chat_create cl (length (sent ?st2))) (DEPLOYMENT_NAME cl)
       (work_order_prompt sample) = Inr advisory"
    using call_advisory_total by blast
  have "tabs8 cl st = Inr (display (show_work_order advisory)
      (?st2\<lparr>sent := sent ?st2 @ [work_order_prompt sample]\<rparr>))"
    using ne crit [symmetric] sample [symmetric] adv
    by (simp add: tabs8_def Let_def sample_1_def next_draw_def display_def)
  then show ?thesis
    using gen by (auto simp add: display_def show_work_order_def warning_sign_def)
qed

section \<open>The draws of one execution\<close>

lemma nine: "Suc (Suc (Suc (Suc (Suc (Suc (Suc (Suc (Suc n)))))))) = n + 9"
  by simp

lemma new_asset_draws: "snd (new_asset today i eq g) = (\<lambda>n. g (n + 9))"
  by (simp add: new_asset_def choice_def randint_def uniform_def next_draw_def Let_def nine)

lemma new_asset_prefix:
  assumes "\<forall>n<9. g n = g' n"
  shows "fst (new_asset today i eq g) = fst (new_asset today i eq g')"
proof -
  have "g 0 = g' 0" "g (Suc 0) = g' (Suc 0)" "g (Suc (Suc 0)) = g' (Suc (Suc 0))"
    "g (Suc (Suc (Suc 0))) = g' (Suc (Suc (Suc 0)))"
    "g (Suc (Suc (Suc (Suc 0)))) = g' (Suc (Suc (Suc (Suc 0))))"
    "g (Suc (Suc (Suc (Suc (Suc 0))))) = g' (Suc (Suc (Suc (Suc (Suc 0)))))"
    "g (Suc (Suc (Suc (Suc (Suc (Suc 0)))))) = g' (Suc (Suc (Suc (Suc (Suc (Suc 0))))))"
    "g (Suc (Suc (Suc (Suc (Suc (Suc (Suc 0))))))) = g' (Suc (Suc (Suc (Suc (Suc (Suc (Suc 0)))))))"
    "g (Suc (Suc (Suc (Suc (Suc (Suc (Suc (Suc 0)))))))) =
       g' (Suc (Suc (Suc (Suc (Suc (Suc (Suc (Suc 0))))))))"
    using assms by simp_all
  then show ?thesis
    by (simp add: new_asset_def choice_def randint_def uniform_def next_draw_def Let_def)
qed

lemma for_range_draws:
  "snd (snd (for_range today eq n (assets, i, g))) = (\<lambda>m. g (m + 9 * n))"
proof (induction n arbitrary: assets i g)
  case 0
  show ?case by simp
next
  case (Suc n)
  show ?case
    using Suc.IH [of "assets @ [fst (new_asset today i eq g)]" "i + 1" "\<lambda>m. g (m + 9)"]
      new_asset_draws [of today i eq g]
    by (simp add: case_prod_beta add_ac)
qed

lemma for_range_prefix:
  "\<forall>m<9 * n. g m = g' m \<Longrightarrow>
   fst (for_range today eq n (assets, i, g)) = fst (for_range today eq n (assets, i, g')) \<and>
   fst (snd (for_range today eq n (assets, i, g))) = fst (snd (for_range today eq n (assets, i, g')))"
proof (induction n arbitrary: assets i g g')
  case 0
  show ?case by simp
next
  case (Suc n)
  have first: "fst (new_asset today i eq g) = fst (new_asset today i eq g')"
    using Suc.prems by (intro new_asset_prefix) simp
  have rest: "\<forall>m<9 * n. (\<lambda>m. g (m + 9)) m = (\<lambda>m. g' (m + 9)) m"
    using Suc.prems by simp
  show ?case
    using Suc.IH [OF rest, of "assets @ [fst (new_asset today i eq g)]" "i + 1"] first
      new_asset_draws [of today i eq g] new_asset_draws [of today i eq g']
    by (simp add: case_prod_beta)
qed

lemma for_items_draws:
  "snd (snd (for_items today items (assets, i, g))) =
     (\<lambda>m. g (m + 9 * sum_list (map snd items)))"
proof (induction items arbitrary: assets i g)
  case Nil
  show ?case by simp
next
  case (Cons item items)
  obtain eq n where item: "item = (eq, n)" by (cases item)
  obtain assets' i' where r: "for_range today eq n (assets, i, g) = (assets', i', \<lambda>m. g (m + 9 * n))"
    using for_range_draws [of today eq n assets i g]
    by (cases "for_range today eq n (assets, i, g)") simp
  show ?case
    using Cons.IH [of assets' i' "\<lambda>m. g (m + 9 * n)"] item r
    by (simp add: add_ac distrib_left)
qed

lemma for_items_prefix:
  "\<forall>m<9 * sum_list (map snd items). g m = g' m \<Longrightarrow>
   fst (for_items today items (assets, i, g)) = fst (for_items today items (assets, i, g'))"
proof (induction items arbitrary: assets i g g')
  case Nil
  show ?case by simp
next
  case (Cons item items)
  obtain eq n where item: "item = (eq, n)" by (cases item)
  have here: "\<forall>m<9 * n. g m = g' m" using Cons.prems item by simp
  obtain assets' i' where r: "for_range today eq n (assets, i, g) = (assets', i', \<lambda>m. g (m + 9 * n))"
    using for_range_draws [of today eq n assets i g]
    by (cases "for_range today eq n (assets, i, g)") simp
  have r': "for_range today eq n (assets, i, g') = (assets', i', \<lambda>m. g' (m + 9 * n))"
    using for_range_prefix [OF here, of today eq assets i] r
      for_range_draws [of today eq n assets i g']
    by (cases "for_range today eq n (assets, i, g')") simp
  have rest: "\<forall>m<9 * sum_list (map snd items). (\<lambda>m. g (m + 9 * n)) m = (\<lambda>m. g' (m + 9 * n)) m"
    using Cons.prems item by (simp add: distrib_left)
  show ?case
    using Cons.IH [OF rest, of assets' i'] item r r' by simp
qed

lemma generate_assets_draws:
  "snd (generate_assets today g) = (\<lambda>m. g (m + 1260))"
  "\<forall>m<1260. g m = g' m \<Longrightarrow> fst (generate_assets today g) = fst (generate_assets today g')"
proof -
  have total: "9 * sum_list (map snd equipment_types) = 1260"
    by (simp add: equipment_types_def)
  show "snd (generate_assets today g) = (\<lambda>m. g (m + 1260))"
    using for_items_draws [of today equipment_types "[]" 1 g] total
    by (simp add: generate_assets_def case_prod_beta)
  show "fst (generate_assets today g) = fst (generate_assets today g')" if "\<forall>m<1260. g m = g' m"
    using for_items_prefix [of equipment_types g g' today "[]" 1] that total
    by (simp add: generate_assets_def case_prod_beta)
qed

lemma panel_draws:
  "tabs1 st = Inr st' \<Longrightarrow> \<exists>k. random_state st' = (\<lambda>n. random_state st (n + k))"
  "tabs2 cl st = Inr st' \<Longrightarrow> \<exists>k. random_state st' = (\<lambda>n. random_state st (n + k))"
  "tabs3 cl st = Inr st' \<Longrightarrow> \<exists>k. random_state st' = (\<lambda>n. random_state st (n + k))"
  "tabs4 cl st = Inr st' \<Longrightarrow> \<exists>k. random_state st' = (\<lambda>n. random_state st (n + k))"
  "tabs5 cl note button st = Inr st' \<Longrightarrow> \<exists>k. random_state st' = (\<lambda>n. random_state st (n + k))"
  "tabs6 cl st = Inr st' \<Longrightarrow> \<exists>k. random_state st' = (\<lambda>n. random_state st (n + k))"
  "tabs7 cl today st = Inr st' \<Longrightarrow> \<exists>k. random_state st' = (\<lambda>n. random_state st (n + k))"
  "tabs8 cl st = Inr st' \<Longrightarrow> \<exists>k. random_state st' = (\<lambda>n. random_state st (n + k))"
proof -
  have zero: "random_state a = random_state st \<Longrightarrow>
      \<exists>k. random_state a = (\<lambda>n. random_state st (n + k))" for a
    by (rule exI [of _ 0]) simp
  have one: "random_state a = (\<lambda>n. random_state st (Suc n)) \<Longrightarrow>
      \<exists>k. random_state a = (\<lambda>n. random_state st (n + k))" for a
    by (rule exI [of _ 1]) simp
  show "\<exists>k. random_state st' = (\<lambda>n. random_state st (n + k))" if "tabs1 st = Inr st'"
    using that by (intro zero) (auto simp add: tabs1_def display_def)
  show "\<exists>k. random_state st' = (\<lambda>n. random_state st (n + k))" if run: "tabs2 cl st = Inr st'"
  proof (cases "filter (\<lambda>row. RUL_months row \<le> 6) (assets_df st) = []")
    case True
    then show ?thesis using run tabs2_empty [OF True, of cl] by (intro zero) (auto simp add: display_def)
  next
    case False
    then show ?thesis using run tabs2_result [OF refl False refl, of cl] by (intro one) auto
  qed
  show "\<exists>k. random_state st' = (\<lambda>n. random_state st (n + k))" if run: "tabs3 cl st = Inr st'"
  proof (cases "prompt_var st")
    case None
    then show ?thesis using run tabs3_result(1) [OF refl None, of cl]
      by (intro zero) (auto split: if_splits)
  next
    case (Some p)
    then show ?thesis using run tabs3_result(2) [OF refl Some, of cl] by (intro zero) auto
  qed
  show "\<exists>k. random_state st' = (\<lambda>n. random_state st (n + k))" if run: "tabs4 cl st = Inr st'"
  proof (cases "prompt_var st")
    case None
    then show ?thesis using run tabs4_result(1) [OF refl None, of cl]
      by (intro zero) (auto split: if_splits)
  next
    case (Some p)
    then show ?thesis using run tabs4_result(2) [OF refl Some, of cl] by (intro zero) auto
  qed
  show "\<exists>k. random_state st' = (\<lambda>n. random_state st (n + k))"
    if run: "tabs5 cl note button st = Inr st'"
    using run tabs5_total [of cl "note" button st] by (intro zero) auto
  show "\<exists>k. random_state st' = (\<lambda>n. random_state st (n + k))" if run: "tabs6 cl st = Inr st'"
  proof (cases "assets_df st = []")
    case True
    then show ?thesis using run tabs6_empty [OF True, of cl] by simp
  next
    case False
    then show ?thesis using run tabs6_total [OF False, of cl] by (intro one) auto
  qed
  show "\<exists>k. random_state st' = (\<lambda>n. random_state st (n + k))" if run: "tabs7 cl today st = Inr st'"
  proof (cases "filter (\<lambda>row. RUL_months row \<le> 6) (assets_df st) = []")
    case True
    then show ?thesis using run tabs7_empty [OF True, of cl today]
      by (intro zero) (auto simp add: display_def)
  next
    case False
    then show ?thesis using run tabs7_nonempty [OF refl False, of cl today] by auto
  qed
  show "\<exists>k. random_state st' = (\<lambda>n. random_state st (n + k))" if run: "tabs8 cl st = Inr st'"
  proof (cases "filter (\<lambda>row. RUL_months row \<le> 3) (assets_df st) = []")
    case True
    then show ?thesis using run tabs8_empty [OF True, of cl]
      by (intro zero) (auto simp add: display_def)
  next
    case False
    then show ?thesis using run tabs8_result [OF refl False refl, of cl] by (intro one) auto
  qed
qed

lemma script_draws:
  assumes "script cl note button today g = Inr st'"
  shows "\<exists>k. random_state st' = (\<lambda>n. g (n + 1260 + k))"
proof -
  obtain s7 where s7: "tabs8 cl s7 = Inr st'" and r7: "and_then (and_then (and_then (and_then
      (and_then (and_then (tabs1 (initial_state today g)) (tabs2 cl)) (tabs3 cl)) (tabs4 cl))
      (tabs5 cl note button)) (tabs6 cl)) (tabs7 cl today) = Inr s7"
    using assms unfolding script_def by (blast dest: and_then_Inr)
  obtain s6 where s6: "tabs7 cl today s6 = Inr s7" and r6: "and_then (and_then (and_then
      (and_then (and_then (tabs1 (initial_state today g)) (tabs2 cl)) (tabs3 cl)) (tabs4 cl))
      (tabs5 cl note button)) (tabs6 cl) = Inr s6"
    using r7 by (blast dest: and_then_Inr)
  obtain s5 where s5: "tabs6 cl s5 = Inr s6" and r5: "and_then (and_then
      (and_then (and_then (tabs1 (initial_state today g)) (tabs2 cl)) (tabs3 cl)) (tabs4 cl))
      (tabs5 cl note button) = Inr s5"
    using r6 by (blast dest: and_then_Inr)
  obtain s4 where s4: "tabs5 cl note button s4 = Inr s5" and r4: "and_then
      (and_then (and_then (tabs1 (initial_state today g)) (tabs2 cl)) (tabs3 cl)) (tabs4 cl) = Inr s4"
    using r5 by (blast dest: and_then_Inr)
  obtain s3 where s3: "tabs4 cl s3 = Inr s4" and r3: "and_then
      (and_then (tabs1 (initial_state today g)) (tabs2 cl)) (tabs3 cl) = Inr s3"
    using r4 by (blast dest: and_then_Inr)
  obtain s2 where s2: "tabs3 cl s2 = Inr s3" and r2: "and_then (tabs1 (initial_state today g)) (tabs2 cl) = Inr s2"
    using r3 by (blast dest: and_then_Inr)
  obtain s1 where s1: "tabs2 cl s1 = Inr s2" and r1: "tabs1 (initial_state today g) = Inr s1"
    using r2 by (blast dest: and_then_Inr)
  obtain k1 k2 k3 k4 k5 k6 k7 k8 where
    "random_state s1 = (\<lambda>n. random_state (initial_state today g) (n + k1))"
    "random_state s2 = (\<lambda>n. random_state s1 (n + k2))"
    "random_state s3 = (\<lambda>n. random_state s2 (n + k3))"
    "random_state s4 = (\<lambda>n. random_state s3 (n + k4))"
    "random_state s5 = (\<lambda>n. random_state s4 (n + k5))"
    "random_state s6 = (\<lambda>n. random_state s5 (n + k6))"
    "random_state s7 = (\<lambda>n. random_state s6 (n + k7))"
    "random_state st' = (\<lambda>n. random_state s7 (n + k8))"
    using panel_draws(1) [OF r1] panel_draws(2) [OF s1] panel_draws(3) [OF s2]
      panel_draws(4) [OF s3] panel_draws(5) [OF s4] panel_draws(6) [OF s5]
      panel_draws(7) [OF s6] panel_draws(8) [OF s7]
    by blast
  then have "random_state st' =
      (\<lambda>n. g (n + 1260 + (k8 + k7 + k6 + k5 + k4 + k3 + k2 + k1)))"
    by (simp add: initial_state_fields generate_assets_draws add_ac)
  then show ?thesis by blast
qed

section \<open>The table is read only within an execution\<close>

text \<open>
  Claim C8 fails on the words \<open>generated exactly once at process start\<close>: the
  table is generated by every execution of the script. Here the first 1260 draws of the
  process, the ones of the first generation, are 0 and all later ones are 1. The first
  execution, with the button not pressed, ends with a table whose assets all have a RUL
  of 1; the execution that follows it, with the button pressed, ends with a table whose
  assets all have a RUL of 2.
\<close>

theorem table_regenerated_counterexample:
  "\<exists>st1 st2.
     script \<lparr>chat_create = \<lambda>k model messages. Inr (Response [Some (ascii ''ok'')]),
             DEPLOYMENT_NAME = None\<rparr> [] False 0 (\<lambda>n. if n < 1260 then 0 else 1) = Inr st1 \<and>
     rerun \<lparr>chat_create = \<lambda>k model messages. Inr (Response [Some (ascii ''ok'')]),
            DEPLOYMENT_NAME = None\<rparr> [] True 0 st1 = Inr st2 \<and>
     list_all (\<lambda>row. RUL_months row = 1) (assets_df st1) \<and>
     list_all (\<lambda>row. RUL_months row = 2) (assets_df st2) \<and>
     length (assets_df st1) = 140 \<and> length (assets_df st2) = 140 \<and>
     assets_df st2 \<noteq> assets_df st1"
proof -
  let ?cl = "\<lparr>chat_create = \<lambda>k model messages. Inr (Response [Some (ascii ''ok'')]),
             DEPLOYMENT_NAME = None\<rparr>"
  let ?G = "\<lambda>n::nat. if n < 1260 then 0 else (1::nat)"
  let ?T1 = "fst (generate_assets 0 (\<lambda>_. 0))"
  let ?T2 = "fst (generate_assets 0 (\<lambda>_. 1))"
  have T1: "fst (generate_assets 0 ?G) = ?T1"
    by (rule generate_assets_draws) simp
  have rul1: "list_all (\<lambda>row. RUL_months row = 1) ?T1"
    using const_table_rul [of 0 0] by simp
  have rul2: "list_all (\<lambda>row. RUL_months row = 2) ?T2"
    using const_table_rul [of 1 0] by simp
  have len1: "length ?T1 = 140" and len2: "length ?T2 = 140"
    by (rule generate_assets_length)+
  have low1: "filter (\<lambda>row. RUL_months row \<le> 6) (fst (generate_assets 0 ?G)) \<noteq> []"
    unfolding T1 using zero_table_low [of 0] by simp
  obtain st1 where run1: "script ?cl [] False 0 ?G = Inr st1"
    using script_succeeds [OF low1] by blast
  have a1: "assets_df st1 = ?T1" using script_frame [OF run1] T1 by simp
  obtain k where "random_state st1 = (\<lambda>n. ?G (n + 1260 + k))"
    using script_draws [OF run1] by blast
  then have g1: "random_state st1 = (\<lambda>_. 1)" by simp
  have "?T2 \<noteq> []" using len2 by auto
  then have low2: "filter (\<lambda>row. RUL_months row \<le> 6) ?T2 \<noteq> []"
    using rul2 by (cases ?T2) simp_all
  obtain st2 where run2: "script ?cl [] True 0 (\<lambda>_. 1) = Inr st2"
    using script_succeeds [OF low2] by blast
  have a2: "assets_df st2 = ?T2" using script_frame [OF run2] .
  have rerun: "rerun ?cl [] True 0 st1 = Inr st2"
    using run2 by (simp add: rerun_def g1)
  have differ: "?T2 \<noteq> ?T1"
  proof
    assume "?T2 = ?T1"
    then have "list_all (\<lambda>row. RUL_months row = 2) ?T1" using rul2 by simp
    then show False using rul1 len1 by (cases ?T1) simp_all
  qed
  show ?thesis
    using run1 rerun rul1 rul2 len1 len2 differ unfolding a1 [symmetric] a2 [symmetric]
    by blast
qed

text \<open>
  Claim C8, amended. Within one execution of the script no panel changes the table
  \<open>assets_df\<close>: a panel that ends without an exception leaves it as it found it. This
  holds for the cost panel too, whose table \<open>low_rul\<close> is a filtered copy: its rows are
  the rows of \<open>assets_df\<close> with a RUL of at most 6, each with the two new columns. After
  an execution that ends without an exception, \<open>assets_df\<close> is the table that
  \<open>generate_assets\<close> returned at its start; the execution that follows generates its own
  table, from the random source as the one before left it.
\<close>

theorem assets_df_read_only:
  "(tabs1 st = Inr st' \<longrightarrow> assets_df st' = assets_df st) \<and>
   (tabs2 cl st = Inr st' \<longrightarrow> assets_df st' = assets_df st) \<and>
   (tabs3 cl st = Inr st' \<longrightarrow> assets_df st' = assets_df st) \<and>
   (tabs4 cl st = Inr st' \<longrightarrow> assets_df st' = assets_df st) \<and>
   (tabs5 cl note button st = Inr st' \<longrightarrow> assets_df st' = assets_df st) \<and>
   (tabs6 cl st = Inr st' \<longrightarrow> assets_df st' = assets_df st) \<and>
   (tabs7 cl today st = Inr st' \<longrightarrow> assets_df st' = assets_df st \<and>
      (\<exists>rows. low_rul_var st' = Some rows \<and>
         map asset.truncate rows = filter (\<lambda>row. RUL_months row \<le> 6) (assets_df st))) \<and>
   (tabs8 cl st = Inr st' \<longrightarrow> assets_df st' = assets_df st) \<and>
   (script cl note button today g = Inr st' \<longrightarrow> assets_df st' = fst (generate_assets today g)) \<and>
   (rerun cl note button today st = Inr st' \<longrightarrow>
      assets_df st' = fst (generate_assets today (random_state st)))"
proof -
  have copy: "\<exists>rows. low_rul_var st' = Some rows \<and>
      map asset.truncate rows = filter (\<lambda>row. RUL_months row \<le> 6) (assets_df st)"
    if run: "tabs7 cl today st = Inr st'"
  proof (cases "filter (\<lambda>row. RUL_months row \<le> 6) (assets_df st) = []")
    case True
    then show ?thesis using run tabs7_empty [OF True, of cl today] by (auto simp add: display_def)
  next
    case False
    then show ?thesis using run tabs7_nonempty [OF refl False, of cl today] by auto
  qed
  have again: "assets_df st' = fst (generate_assets today (random_state st))"
    if "rerun cl note button today st = Inr st'"
    using that script_frame [of cl "note" button today "random_state st" st']
    by (simp add: rerun_def)
  show ?thesis
    using tabs1_frame [of st st'] tabs2_frame [of cl st st'] tabs3_frame [of cl st st']
      tabs4_frame [of cl st st'] tabs5_frame [of cl "note" button st st'] tabs6_frame [of cl st st']
      tabs7_frame [of cl today st st'] tabs8_frame [of cl st st']
      script_frame [of cl "note" button today g st'] copy again
    by blast
qed

theorem assets_df_read_only_witness:
  "\<exists>st1 st2.
     script \<lparr>chat_create = \<lambda>k model messages. Inr (Response [Some (ascii ''ok'')]),
             DEPLOYMENT_NAME = None\<rparr> [] False 0 (\<lambda>_. 0) = Inr st1 \<and>
     assets_df st1 = fst (generate_assets 0 (\<lambda>_. 0)) \<and>
     rerun \<lparr>chat_create = \<lambda>k model messages. Inr (Response [Some (ascii ''ok'')]),
            DEPLOYMENT_NAME = None\<rparr> [] True 0 st1 = Inr st2 \<and>
     assets_df st2 = fst (generate_assets 0 (random_state st1))"
proof -
  let ?cl = "\<lparr>chat_create = \<lambda>k model messages. Inr (Response [Some (ascii ''ok'')]),
           DEPLOYMENT_NAME = None\<rparr>"
  have low: "filter (\<lambda>row. RUL_months row \<le> 6) (fst (generate_assets 0 (\<lambda>_. 0))) \<noteq> []"
    using zero_table_low [of 0] by simp
  obtain st1 where run1: "script ?cl [] False 0 (\<lambda>_. 0) = Inr st1"
    using script_succeeds [OF low] by blast
  have a1: "assets_df st1 = fst (generate_assets 0 (\<lambda>_. 0))"
    using run1 assets_df_read_only [of st1 st1 ?cl "[]" False 0 "\<lambda>_. 0"] by blast
  obtain k where "random_state st1 = (\<lambda>n. (\<lambda>_. 0) (n + 1260 + k))"
    using script_draws [OF run1] by blast
  then have g1: "random_state st1 = (\<lambda>_. 0)" by simp
  obtain st2 where run2: "script ?cl [] True 0 (\<lambda>_. 0) = Inr st2"
    using script_succeeds [OF low] by blast
  have rerun: "rerun ?cl [] True 0 st1 = Inr st2"
    using run2 by (simp add: rerun_def g1)
  have a2: "assets_df st2 = fst (generate_assets 0 (random_state st1))"
    using rerun assets_df_read_only [of st1 st2 ?cl "[]" True 0 "\<lambda>_. 0"] by blast
  show ?thesis using run1 a1 rerun a2 by blast
qed

section \<open>How the panels show an advisory\<close>

lemma show_work_order_cases:
  "show_work_order (warning_sign @ s) = Error (warning_sign @ s)"
  "show_work_order (ascii ''ok'') = Info (ascii ''ok'')"
  by (simp_all add: show_work_order_def warning_sign_def ascii_def)

lemma tabs8_zero_table:
  "\<exists>st' advisory. tabs8 cl (initial_state today (\<lambda>_. 0)) = Inr st' \<and>
     genai_advisory (chat_create cl 0) (DEPLOYMENT_NAME cl)
       (work_order_prompt (fst (generate_assets today (\<lambda>_. 0)) ! 0)) = Inr advisory \<and>
     last (shown st') = show_work_order advisory"
proof -
  let ?st = "initial_state today (\<lambda>_. 0)"
  let ?T = "fst (generate_assets today (\<lambda>_. 0))"
  have crit: "?T = filter (\<lambda>row. RUL_months row \<le> 3) (assets_df ?st)"
    by (simp add: initial_state_fields zero_table_low)
  have ne: "?T \<noteq> []" by (rule zero_table_low)
  have g: "snd (generate_assets today (\<lambda>_. 0)) = (\<lambda>_. 0)" using zero_table [of today] by simp
  show ?thesis
    using tabs8_nonempty [OF crit ne, of cl] by (auto simp add: g initial_state_fields)
qed

text \<open>
  Claim C9 fails on the work-order panel: from the same state, it shows the string of
  a failed call with \<open>st.error\<close> and the string of an answered call with \<open>st.info\<close>.
\<close>

theorem work_order_routing_counterexample:
  "(\<exists>st'. tabs8 \<lparr>chat_create = \<lambda>k model messages. Inl (APIError (ascii ''timeout'')),
                  DEPLOYMENT_NAME = None\<rparr> (initial_state 0 (\<lambda>_. 0)) = Inr st' \<and>
      last (shown st') = Error ([9888, 65039] @ ascii '' GenAI Error: timeout'')) \<and>
   (\<exists>st'. tabs8 \<lparr>chat_create = \<lambda>k model messages. Inr (Response [Some (ascii ''ok'')]),
                  DEPLOYMENT_NAME = None\<rparr> (initial_state 0 (\<lambda>_. 0)) = Inr st' \<and>
      last (shown st') = Info (ascii ''ok''))"
proof -
  have fail: "genai_advisory (\<lambda>model messages. Inl (APIError (ascii ''timeout''))) None p =
      Inr (warning_sign @ ascii '' GenAI Error: timeout'')" for p
    by (simp add: genai_advisory_def advisory_try_def ascii_def)
  have ok: "genai_advisory (\<lambda>model messages. Inr (Response [Some (ascii ''ok'')])) None p =
      Inr (ascii ''ok'')" for p
    by (simp add: genai_advisory_def advisory_try_def strip_def isspace_def ascii_def)
  have "\<exists>st'. tabs8 \<lparr>chat_create = \<lambda>k model messages. Inl (APIError (ascii ''timeout'')),
                  DEPLOYMENT_NAME = None\<rparr> (initial_state 0 (\<lambda>_. 0)) = Inr st' \<and>
      last (shown st') = Error (warning_sign @ ascii '' GenAI Error: timeout'')"
    using tabs8_zero_table [of "\<lparr>chat_create = \<lambda>k model messages. Inl (APIError (ascii ''timeout'')),
                  DEPLOYMENT_NAME = None\<rparr>" 0]
    by (auto simp add: fail show_work_order_cases)
  moreover have "\<exists>st'. tabs8 \<lparr>chat_create = \<lambda>k model messages. Inr (Response [Some (ascii ''ok'')]),
                  DEPLOYMENT_NAME = None\<rparr> (initial_state 0 (\<lambda>_. 0)) = Inr st' \<and>
      last (shown st') = Info (ascii ''ok'')"
    using tabs8_zero_table [of "\<lparr>chat_create = \<lambda>k model messages. Inr (Response [Some (ascii ''ok'')]),
                  DEPLOYMENT_NAME = None\<rparr>" 0]
    by (auto simp add: ok show_work_order_cases)
  ultimately show ?thesis by (simp add: warning_sign_def)
qed

text \<open>
  Claim C9, amended. Whatever strings the advisory calls return, the lifespan,
  corrosion, failure-mode, field-report, regulatory and cost panels do the same: each
  ends in the result given here, which is fixed by the state the panel starts in
  except for the advisories themselves, and these appear unchanged and only as the
  content of the one display call of the panel (\<open>st.info\<close>, \<open>st.warning\<close>, \<open>st.error\<close>,
  \<open>st.success\<close>, \<open>st.info\<close> and \<open>st.success\<close>). Whether such a panel raises, and what it
  binds, sends and draws, does not depend on an advisory. The work-order panel is the
  exception: it shows its advisory with \<open>st.error\<close> when the string contains the warning
  sign (code points 9888 and 65039) and with \<open>st.info\<close> otherwise.
\<close>

theorem advisory_routing:
  assumes low: "low = filter (\<lambda>row. RUL_months row \<le> 6) (assets_df st)"
    and critical: "critical = filter (\<lambda>row. RUL_months row \<le> 3) (assets_df st)"
    and corroding: "corroding = top5_by Corrosion_Level (assets_df st)"
    and risky: "risky = top5_by Degradation_pct (assets_df st)"
    and costed: "costed = map (\<lambda>(row, cost). asset.extend row
        (cost_row.fields cost (today + RUL_months row * 30)))
      (zip low (fst (series_apply get_equipment_cost (map Type low) (random_state st))))"
  shows
   "(low = [] \<longrightarrow> tabs2 cl st = Inr (st\<lparr>shown := shown st @ [Styled_Dataframe []]\<rparr>)) \<and>
    (low \<noteq> [] \<longrightarrow> (\<exists>advisory.
       genai_advisory (chat_create cl (length (sent st))) (DEPLOYMENT_NAME cl)
         (lifespan_prompt (low ! (random_state st 0 mod length low))) = Inr advisory \<and>
       tabs2 cl st = Inr (st\<lparr>
         prompt_var := Some (lifespan_prompt (low ! (random_state st 0 mod length low))),
         random_state := \<lambda>n. random_state st (Suc n),
         sent := sent st @ [lifespan_prompt (low ! (random_state st 0 mod length low))],
         shown := shown st @
           [Styled_Dataframe (map (\<lambda>row. (row, highlight_lifespan row)) low),
            Markdown (ascii ''**GenAI Insight for '' @
              Asset_ID (low ! (random_state st 0 mod length low)) @ ascii ''**''),
            Info advisory]\<rparr>))) \<and>
    (prompt_var st = None \<longrightarrow>
       tabs3 cl st = (if corroding = [] then Inr (st\<lparr>shown := shown st @ [Pyplot []]\<rparr>)
                      else Inl NameError)) \<and>
    (prompt_var st = Some p \<longrightarrow> (\<exists>advisories.
       list_all2 (\<lambda>k advisory.
           genai_advisory (chat_create cl k) (DEPLOYMENT_NAME cl) p = Inr advisory)
         [length (sent st)..<length (sent st) + length corroding] advisories \<and>
       tabs3 cl st = Inr (st\<lparr>sent := sent st @ replicate (length corroding) p,
         shown := shown st @
           Pyplot (map (\<lambda>row. (Asset_ID row, Corrosion_Level row)) corroding) #
           concat (map (\<lambda>(row, advisory).
             [Markdown (ascii ''**Corrosion Summary for '' @ Asset_ID row @ ascii ''**''),
              Warning advisory]) (zip corroding advisories))\<rparr>))) \<and>
    (prompt_var st = None \<longrightarrow>
       tabs4 cl st = (if risky = [] then Inr st else Inl NameError)) \<and>
    (prompt_var st = Some p \<longrightarrow> (\<exists>advisories.
       list_all2 (\<lambda>k advisory.
           genai_advisory (chat_create cl k) (DEPLOYMENT_NAME cl) p = Inr advisory)
         [length (sent st)..<length (sent st) + length risky] advisories \<and>
       tabs4 cl st = Inr (st\<lparr>sent := sent st @ replicate (length risky) p,
         shown := shown st @
           concat (map (\<lambda>(row, advisory).
             [Markdown (ascii ''**Failure Mode Prediction for '' @ Asset_ID row @ ascii ''**''),
              Error advisory]) (zip risky advisories))\<rparr>))) \<and>
    tabs5 cl note False st = Inr st \<and>
    (\<exists>advisory.
       genai_advisory (chat_create cl (length (sent st))) (DEPLOYMENT_NAME cl)
         (report_prompt note) = Inr advisory \<and>
       tabs5 cl note True st = Inr (st\<lparr>prompt_var := Some (report_prompt note),
         sent := sent st @ [report_prompt note],
         shown := shown st @ [Success advisory]\<rparr>)) \<and>
    (assets_df st = [] \<longrightarrow> tabs6 cl st = Inl ValueError) \<and>
    (assets_df st \<noteq> [] \<longrightarrow> (\<exists>advisory.
       genai_advisory (chat_create cl (length (sent st))) (DEPLOYMENT_NAME cl)
         (compliance_prompt (assets_df st ! (random_state st 0 mod length (assets_df st)))) =
         Inr advisory \<and>
       tabs6 cl st = Inr (st\<lparr>
         prompt_var := Some (compliance_prompt
           (assets_df st ! (random_state st 0 mod length (assets_df st)))),
         random_state := \<lambda>n. random_state st (Suc n),
         sent := sent st @ [compliance_prompt
           (assets_df st ! (random_state st 0 mod length (assets_df st)))],
         shown := shown st @ [Info advisory]\<rparr>))) \<and>
    (low = [] \<longrightarrow> tabs7 cl today st = Inr (st\<lparr>low_rul_var := Some [],
       shown := shown st @ [Info (ascii ''No assets nearing end of life.'')]\<rparr>)) \<and>
    (low \<noteq> [] \<longrightarrow> (\<exists>advisory.
       genai_advisory (chat_create cl (length (sent st))) (DEPLOYMENT_NAME cl)
         (cost_prompt (sum_list (map Replacement_Cost costed))) = Inr advisory \<and>
       tabs7 cl today st = Inr (st\<lparr>
         prompt_var := Some (cost_prompt (sum_list (map Replacement_Cost costed))),
         low_rul_var := Some costed,
         random_state := snd (series_apply get_equipment_cost (map Type low) (random_state st)),
         sent := sent st @ [cost_prompt (sum_list (map Replacement_Cost costed))],
         shown := shown st @
           [Dataframe (map (\<lambda>row. [Text (Asset_ID row), Text (Type row), Text (Location row),
              Number (RUL_months row), Number (Replacement_Cost row), Day (Replace_By row)])
              costed),
            Success advisory]\<rparr>))) \<and>
    (critical = [] \<longrightarrow> tabs8 cl st = Inr (st\<lparr>shown := shown st @
       [Success ([9989] @ ascii '' No urgent work orders required.'')]\<rparr>)) \<and>
    (critical \<noteq> [] \<longrightarrow> (\<exists>advisory.
       genai_advisory (chat_create cl (length (sent st))) (DEPLOYMENT_NAME cl)
         (work_order_prompt (critical ! (random_state st 0 mod length critical))) =
         Inr advisory \<and>
       tabs8 cl st = Inr (st\<lparr>
         prompt_var := Some (work_order_prompt (critical ! (random_state st 0 mod length critical))),
         random_state := \<lambda>n. random_state st (Suc n),
         sent := sent st @ [work_order_prompt (critical ! (random_state st 0 mod length critical))],
         shown := shown st @
           [Dataframe (map (\<lambda>row. [Text (Asset_ID row), Text (Type row), Text (Location row),
              Text (Status row), Number (RUL_months row)]) critical),
            if contains [9888, 65039] advisory then Error advisory else Info advisory]\<rparr>)))"
proof -
  have t2e: "low = [] \<Longrightarrow> tabs2 cl st = Inr (st\<lparr>shown := shown st @ [Styled_Dataframe []]\<rparr>)"
    using tabs2_empty [of st cl] low by (simp add: display_def)
  have t7e: "low = [] \<Longrightarrow> tabs7 cl today st = Inr (st\<lparr>low_rul_var := Some [],
       shown := shown st @ [Info (ascii ''No assets nearing end of life.'')]\<rparr>)"
    using tabs7_empty [of st cl today] low by (simp add: display_def)
  have t8e: "critical = [] \<Longrightarrow> tabs8 cl st = Inr (st\<lparr>shown := shown st @
       [Success ([9989] @ ascii '' No urgent work orders required.'')]\<rparr>)"
    using tabs8_empty [of st cl] critical by (simp add: display_def)
  have t6e: "assets_df st = [] \<Longrightarrow> tabs6 cl st = Inl ValueError"
    by (rule tabs6_empty)
  show ?thesis
    using t2e tabs2_result [OF low _ refl, of cl]
      tabs3_result(1) [OF corroding, of cl] tabs3_result(2) [OF corroding, of p cl]
      tabs4_result(1) [OF risky, of cl] tabs4_result(2) [OF risky, of p cl]
      tabs5_result(1) [of cl "note" st] tabs5_result(2) [of cl st "note"]
      t6e tabs6_result [OF _ refl, of st cl]
      t7e tabs7_result [OF low _ costed, of cl]
      t8e tabs8_result [OF critical _ refl, of cl]
    by (simp only: simp_thms) blast
qed


theorem advisory_routing_witness:
  "(\<exists>st'. tabs2 \<lparr>chat_create = \<lambda>k model messages. Inl (APIError (ascii ''quota'')),
                  DEPLOYMENT_NAME = None\<rparr> (initial_state 0 (\<lambda>_. 0)) = Inr st' \<and>
      shown st' =
        [Styled_Dataframe (map (\<lambda>row. (row, highlight_lifespan row))
           (fst (generate_assets 0 (\<lambda>_. 0)))),
         Markdown (ascii ''**GenAI Insight for A0001**''),
         Info ([9888, 65039] @ ascii '' GenAI Error: quota'')]) \<and>
   tabs3 \<lparr>chat_create = \<lambda>k model messages. Inl (APIError (ascii ''quota'')),
          DEPLOYMENT_NAME = None\<rparr> (initial_state 0 (\<lambda>_. 0)) = Inl NameError \<and>
   (\<exists>st'. tabs8 \<lparr>chat_create = \<lambda>k model messages. Inl (APIError (ascii ''quota'')),
                  DEPLOYMENT_NAME = None\<rparr> (initial_state 0 (\<lambda>_. 0)) = Inr st' \<and>
      last (shown st') = Error ([9888, 65039] @ ascii '' GenAI Error: quota'')) \<and>
   tabs2 \<lparr>chat_create = \<lambda>k model messages. Inr (Response [Some (ascii ''ok'')]),
          DEPLOYMENT_NAME = None\<rparr> (initial_state 0 (\<lambda>_. 10)) =
     Inr ((initial_state 0 (\<lambda>_. 10))\<lparr>shown := [Styled_Dataframe []]\<rparr>)"
proof -
  let ?bad = "\<lparr>chat_create = \<lambda>k model messages. Inl (APIError (ascii ''quota'')),
                  DEPLOYMENT_NAME = None\<rparr>"
  let ?ok = "\<lparr>chat_create = \<lambda>k model messages. Inr (Response [Some (ascii ''ok'')]),
                  DEPLOYMENT_NAME = None\<rparr>"
  let ?st = "initial_state 0 (\<lambda>_. 0)"
  let ?T = "fst (generate_assets 0 (\<lambda>_. 0))"
  have ne: "?T \<noteq> []" by (rule zero_table_low)
  have g: "random_state ?st = (\<lambda>_. 0)" using zero_table [of 0] by (simp add: initial_state_fields)
  have fields: "shown ?st = []" "prompt_var ?st = None" "assets_df ?st = ?T"
    by (simp_all add: initial_state_fields)
  have fail: "genai_advisory (\<lambda>model messages. Inl (APIError (ascii ''quota''))) None p =
      Inr ([9888, 65039] @ ascii '' GenAI Error: quota'')" for p
    by (simp add: genai_advisory_def advisory_try_def warning_sign_def ascii_def)
  have marked: "contains [9888, 65039] ([9888, 65039] @ ascii '' GenAI Error: quota'')"
    by simp
  have heading: "ascii ''**GenAI Insight for '' @ Asset_ID (?T ! 0) @ ascii ''**'' =
      ascii ''**GenAI Insight for A0001**''"
    by (simp add: zero_table_first ascii_def)
  note all = advisory_routing [where st = ?st and cl = ?bad, OF refl refl refl refl refl]
  have t2: "\<exists>st'. tabs2 ?bad ?st = Inr st' \<and>
      shown st' = [Styled_Dataframe (map (\<lambda>row. (row, highlight_lifespan row)) ?T),
         Markdown (ascii ''**GenAI Insight for A0001**''),
         Info ([9888, 65039] @ ascii '' GenAI Error: quota'')]"
    using all [THEN conjunct2, THEN conjunct1] ne heading
    unfolding g fields by (auto simp add: fail zero_table_low)
  have top: "top5_by Corrosion_Level (assets_df ?st) \<noteq> []"
    using top5_by_length [of Corrosion_Level ?T] generate_assets_length [of 0 "\<lambda>_. 0"]
    unfolding fields by auto
  have t3: "tabs3 ?bad ?st = Inl NameError"
    using all [THEN conjunct2, THEN conjunct2, THEN conjunct1] top fields(2) by simp
  have t8: "\<exists>st'. tabs8 ?bad ?st = Inr st' \<and>
      last (shown st') = Error ([9888, 65039] @ ascii '' GenAI Error: quota'')"
    using all [THEN conjunct2, THEN conjunct2, THEN conjunct2, THEN conjunct2, THEN conjunct2,
        THEN conjunct2, THEN conjunct2, THEN conjunct2, THEN conjunct2, THEN conjunct2,
        THEN conjunct2, THEN conjunct2, THEN conjunct2] ne marked
    unfolding g fields by (auto simp add: fail zero_table_low simp del: contains.simps)
  let ?st10 = "initial_state 0 (\<lambda>_. 10)"
  have "list_all (\<lambda>row. RUL_months row = 1 + int (10 mod 36)) (fst (generate_assets 0 (\<lambda>_. 10)))"
    by (rule const_table_rul)
  then have none: "filter (\<lambda>row. RUL_months row \<le> 6) (assets_df ?st10) = []"
    by (simp add: initial_state_fields filter_empty_conv list_all_iff)
  have t2': "tabs2 ?ok ?st10 = Inr (?st10\<lparr>shown := [Styled_Dataframe []]\<rparr>)"
    using advisory_routing [where st = ?st10 and cl = ?ok, OF refl refl refl refl refl,
        THEN conjunct1] none
    by (simp add: initial_state_fields)
  show ?thesis using t2 t3 t8 t2' by (simp only: simp_thms)
qed

end
